theory Spec2Isabelle
  imports Main "HOL-Library.Monad_Syntax"
begin

section \<open>Status values and fatal checks\<close>

text \<open>
  The picker lives in \<^verbatim>\<open>cudnn_convolution_algorithm_picker.cc\<close>. Its functions
  end in one of three ways: they return a value, they return a non-OK \<open>Status\<close>
  (\<open>StatusOr\<close>, \<open>TF_ASSIGN_OR_RETURN\<close>, \<open>TF_RETURN_IF_ERROR\<close>), or a \<open>CHECK\<close> fails
  and the process is terminated. A \<open>StatusOr<T>\<close> is a sum \<open>Status + T\<close> (\<open>Inl\<close> the
  error); a failed \<open>CHECK\<close> is the constructor \<open>CheckFailure\<close> of \<open>checked\<close>.

  Values of type \<open>int64\<close> are modelled as \<open>int\<close>. Where the source multiplies them
  (the size computed by \<open>ShouldIncludeWinogradNonfusedAlgo\<close>) the reduction to 64 bits
  is written out.
\<close>

datatype error_code = RESOURCE_EXHAUSTED | INTERNAL | OTHER_CODE nat

text \<open>
  The text of a status, kept structured: \<open>ExceedsMemoryLimit b l\<close> stands for
  \<^verbatim>\<open>StrFormat("Allocating %d bytes exceeds the memory limit of %d bytes.", b, l)\<close>,
  \<open>AllAlgorithmsFailed s\<close> for the text of the \<open>InternalError\<close> at the end of
  \<open>PickBestAlgorithm\<close>, built from \<open>instr->ToString()\<close>. \<open>Text\<close> is the text of a
  status produced by a collaborator.
\<close>

datatype Message = ExceedsMemoryLimit int int | AllAlgorithmsFailed string | Text string

datatype Status = Status error_code Message

datatype 'a checked = CheckFailure string | Done 'a

section \<open>ScratchAllocator\<close>

record DeviceMemoryBase =
  opaque :: int
  mem_size :: int

record OwningDeviceMemory =
  owned_opaque :: int
  owned_size :: int
  owned_device_ordinal :: int

definition AsDeviceMemoryBase :: "OwningDeviceMemory \<Rightarrow> DeviceMemoryBase" where
  "AsDeviceMemoryBase b = \<lparr>opaque = owned_opaque b, mem_size = owned_size b\<rparr>"

text \<open>
  The injected \<open>DeviceMemoryAllocator\<close> is a collaborator with a state of its own
  (\<open>'m\<close>): \<open>Allocate(device_ordinal, size, retry_on_failure)\<close> answers with a status or
  an owned buffer and a new allocator state.
\<close>

type_synonym 'm DeviceMemoryAllocator =
  "'m \<Rightarrow> int \<Rightarrow> int \<Rightarrow> bool \<Rightarrow> (Status + OwningDeviceMemory) \<times> 'm"

record ScratchAllocator =
  device_ordinal :: int
  allocated_buffers :: "OwningDeviceMemory list"
  total_allocated_bytes :: int

definition new_ScratchAllocator :: "int \<Rightarrow> ScratchAllocator" where
  "new_ScratchAllocator ordinal =
     \<lparr>device_ordinal = ordinal, allocated_buffers = [], total_allocated_bytes = 0\<rparr>"

definition GetMemoryLimitInBytes :: int where
  "GetMemoryLimitInBytes = 2 ^ 32"

definition TotalAllocatedBytes :: "ScratchAllocator \<Rightarrow> int" where
  "TotalAllocatedBytes sa = total_allocated_bytes sa"

text \<open>
  \<open>AllocateBytes\<close> (lines 57-76). The allocator and the state of the device allocator
  it points to are passed in and returned; the first component of the result is the
  \<open>StatusOr\<close> the caller sees.
\<close>

definition AllocateBytes ::
  "'m DeviceMemoryAllocator \<Rightarrow> int \<Rightarrow> ScratchAllocator \<times> 'm
     \<Rightarrow> ((Status + DeviceMemoryBase) \<times> ScratchAllocator \<times> 'm) checked" where
  "AllocateBytes Allocate byte_size = (\<lambda>(sa, m).
     if \<not> byte_size \<ge> 0 then CheckFailure ''byte_size must be positive.''
     else if byte_size > GetMemoryLimitInBytes then
       Done (Inl (Status RESOURCE_EXHAUSTED
                    (ExceedsMemoryLimit byte_size GetMemoryLimitInBytes)), sa, m)
     else
       (case Allocate m (device_ordinal sa) byte_size False of
          (Inl st, m') \<Rightarrow> Done (Inl st, sa, m')
        | (Inr allocated_buffer, m') \<Rightarrow>
            Done (Inr (AsDeviceMemoryBase allocated_buffer),
                  sa\<lparr>total_allocated_bytes := total_allocated_bytes sa + byte_size,
                     allocated_buffers := allocated_buffers sa @ [allocated_buffer]\<rparr>,
                  m')))"

text \<open>
  A client issuing a sequence of requests to one allocator, whatever each request
  returns (a failed request leaves the client free to go on).
\<close>

fun AllocateBytesSeq ::
  "'m DeviceMemoryAllocator \<Rightarrow> int list \<Rightarrow> ScratchAllocator \<times> 'm
     \<Rightarrow> (ScratchAllocator \<times> 'm) checked" where
  "AllocateBytesSeq Allocate [] sm = Done sm"
| "AllocateBytesSeq Allocate (b # bs) sm =
     (case AllocateBytes Allocate b sm of
        CheckFailure msg \<Rightarrow> CheckFailure msg
      | Done (r, sa', m') \<Rightarrow> AllocateBytesSeq Allocate bs (sa', m'))"

text \<open>
  A device allocator for concrete runs: a bump allocator over \<open>capacity\<close> bytes whose
  state is the number of bytes handed out.
\<close>

definition bump_allocator :: "int \<Rightarrow> int DeviceMemoryAllocator" where
  "bump_allocator capacity used ordinal n retry =
     (if used + n \<le> capacity
      then (Inr \<lparr>owned_opaque = used, owned_size = n, owned_device_ordinal = ordinal\<rparr>,
            used + n)
      else (Inl (Status RESOURCE_EXHAUSTED (Text ''Out of memory'')), used))"

section \<open>Shapes and the Winograd workaround\<close>

datatype PrimitiveType = PRED | S8 | S32 | S64 | U8 | U32 | F16 | F32 | F64 | TUPLE

datatype Shape = ArrayShape PrimitiveType "int list" | TupleShape "Shape list"

fun element_type :: "Shape \<Rightarrow> PrimitiveType" where
  "element_type (ArrayShape t ds) = t"
| "element_type (TupleShape ss) = TUPLE"

fun dimensions :: "Shape \<Rightarrow> int list" where
  "dimensions (ArrayShape t ds) = ds"
| "dimensions (TupleShape ss) = []"

text \<open>
  Reading element \<open>i\<close> of a repeated field. An index outside the field is not a
  defined read in the source; the model answers \<open>None\<close>.
\<close>

definition at_index :: "'a list \<Rightarrow> int \<Rightarrow> 'a option" where
  "at_index xs i = (if 0 \<le> i \<and> i < int (length xs) then Some (xs ! nat i) else None)"

fun tuple_shapes :: "Shape \<Rightarrow> int \<Rightarrow> Shape option" where
  "tuple_shapes (TupleShape ss) i = at_index ss i"
| "tuple_shapes (ArrayShape t ds) i = None"

definition MakeShape :: "PrimitiveType \<Rightarrow> int list \<Rightarrow> Shape" where
  "MakeShape t ds = ArrayShape t ds"

definition MakeTupleShape :: "Shape list \<Rightarrow> Shape" where
  "MakeTupleShape ss = TupleShape ss"

record ConvolutionDimensionNumbers =
  input_batch_dimension :: int
  input_feature_dimension :: int
  input_spatial_dimensions :: "int list"
  kernel_input_feature_dimension :: int
  kernel_output_feature_dimension :: int
  kernel_spatial_dimensions :: "int list"
  output_batch_dimension :: int
  output_feature_dimension :: int
  output_spatial_dimensions :: "int list"

record Version =
  major_version :: int
  minor_version :: int
  patch_version :: int

text \<open>
  Modelled from the spec: \<open>CeilOfRatio\<close> is declared in \<^verbatim>\<open>xla/util.h\<close>, which is not
  among the sources; the spec calls it \<open>ceil(batch / 16)\<close>, the ceiling of the ratio.
\<close>

definition CeilOfRatio :: "int \<Rightarrow> int \<Rightarrow> int" where
  "CeilOfRatio a b = - ((- a) div b)"

text \<open>
  The value an \<open>int64\<close> holds after an arithmetic result \<open>x\<close> is stored in it: \<open>x\<close>
  reduced modulo \<open>2 ^ 64\<close> into the signed range.
\<close>

definition to_int64 :: "int \<Rightarrow> int" where
  "to_int64 x = signed_take_bit 63 x"

definition sizeof_float :: int where
  "sizeof_float = 4"

text \<open>
  \<open>ShouldIncludeWinogradNonfusedAlgo\<close> (lines 81-106). The last argument is what
  \<open>stream_exec->AsDnn()->GetVersion()\<close> returned. The product of line 100 is formed in
  64-bit arithmetic: its last factor \<open>sizeof(float)\<close> is unsigned, so that
  multiplication is done modulo \<open>2 ^ 64\<close> and the result converted to \<open>int64\<close>.
\<close>

definition ShouldIncludeWinogradNonfusedAlgo ::
  "Shape \<Rightarrow> Shape \<Rightarrow> ConvolutionDimensionNumbers \<Rightarrow> Status + Version \<Rightarrow> bool option" where
  "ShouldIncludeWinogradNonfusedAlgo input_shape output_shape dnums version =
     (if (case version of Inl st \<Rightarrow> False | Inr v \<Rightarrow> major_version v \<ge> 7) then Some True
      else do {
        batch \<leftarrow> at_index (dimensions input_shape) (input_batch_dimension dnums);
        in_depths \<leftarrow> at_index (dimensions input_shape) (input_feature_dimension dnums);
        in_rows \<leftarrow> Option.bind (at_index (input_spatial_dimensions dnums) 0)
                     (at_index (dimensions input_shape));
        in_cols \<leftarrow> (if length (input_spatial_dimensions dnums) = 1 then Some 1
                     else Option.bind (at_index (input_spatial_dimensions dnums) 1)
                            (at_index (dimensions input_shape)));
        out_depths \<leftarrow> at_index (dimensions output_shape) (output_feature_dimension dnums);
        let total_size = to_int64 (CeilOfRatio batch 16 * max in_depths out_depths
                                    * in_cols * in_rows * sizeof_float);
        let threshold = 2 ^ 31;
        Some (total_size < threshold)
      })"

text \<open>
  The policy as the specification words it, over the integers: eligible when the library's
  major version is at least 7, otherwise exactly when
  \<open>ceil(batch / 16) * max(input_channels, output_channels) * spatial_rows * spatial_cols
  * sizeof(float32)\<close> is below \<open>2 ^ 31\<close>.
\<close>

definition spec_total_size :: "int \<Rightarrow> int \<Rightarrow> int \<Rightarrow> int \<Rightarrow> int \<Rightarrow> int" where
  "spec_total_size batch input_channels output_channels spatial_rows spatial_cols =
     CeilOfRatio batch 16 * max input_channels output_channels * spatial_rows * spatial_cols * 4"

definition spec_winograd_eligible :: "int \<Rightarrow> int \<Rightarrow> int \<Rightarrow> int \<Rightarrow> int \<Rightarrow> int \<Rightarrow> bool" where
  "spec_winograd_eligible major batch input_channels output_channels spatial_rows spatial_cols =
     (major \<ge> 7 \<or>
      spec_total_size batch input_channels output_channels spatial_rows spatial_cols < 2 ^ 31)"

section \<open>The benchmark loop\<close>

datatype CudnnConvKind = kBackwardFilter | kBackwardInput | kForward

record AlgorithmDesc =
  algo_id :: int
  tensor_ops_enabled :: bool

text \<open>
  Modelled from the spec: \<open>se::dnn::ProfileResult\<close> is declared in the stream executor,
  which is not among the sources. The spec gives it a validity flag, an elapsed time
  (comparable, lower is better) and the algorithm it corresponds to. The elapsed time is
  any linearly ordered type. The default-constructed value the loop starts from is a
  parameter of the picker (\<open>default_ProfileResult\<close> below).
\<close>

record 't ProfileResult =
  is_valid :: bool
  elapsed_time_in_ms :: 't
  algorithm :: AlgorithmDesc

datatype F16BufferComparator = F16BufferComparator DeviceMemoryBase

text \<open>
  What the collaborators did in one iteration of the loop: whether
  \<open>RunCudnnConvolution\<close> returned OK, the profile it filled in, the iteration's own
  \<open>ScratchAllocator\<close> as the run left it, and what \<open>F16BufferComparator::Create\<close> and
  \<open>CompareEqual\<close> answer if the iteration calls them.
\<close>

record 't Trial =
  launch_ok :: bool
  profile_result :: "'t ProfileResult"
  scratch_allocator :: ScratchAllocator
  comparator_create :: "Status option"
  compare_equal :: "Status + bool"

datatype Diagnostic =
    UnableToCompare "AlgorithmDesc option" AlgorithmDesc string Status
  | ResultsMismatch string "AlgorithmDesc option" AlgorithmDesc
  | FailToInitializeComparator Status string
  | PickerStatus Status

text \<open>
  The trace of a call: the operations put on the stream, the calls to the comparator and
  the messages logged at error level, in the order they happen.
\<close>

datatype Event =
    ThenMemset32 DeviceMemoryBase int int
  | ThenMemcpy DeviceMemoryBase "int list" int
  | ThenMemZero DeviceMemoryBase int
  | BlockHostUntilDone
  | RunConvolution AlgorithmDesc
  | ComparatorCreate DeviceMemoryBase
  | ComparatorCompareEqual F16BufferComparator DeviceMemoryBase
  | LOG_ERROR Diagnostic

record 't LoopState =
  best_result :: "'t ProfileResult"
  best_result_bytes_used :: int
  comparator :: "F16BufferComparator option"
  first_algorithm :: "AlgorithmDesc option"

text \<open>
  \<open>Eigen::half(0.1f)\<close> is the bit pattern \<open>0x2E66\<close>; two of them copied into a
  \<open>uint32\<close> give \<open>0x2E662E66\<close> (lines 236-241).
\<close>

definition kBroadcastedConstant_half :: int where
  "kBroadcastedConstant_half = 0x2E66"

definition halfs :: "int list" where
  "halfs = [kBroadcastedConstant_half, kBroadcastedConstant_half]"

definition bits :: int where
  "bits = kBroadcastedConstant_half * 2 ^ 16 + kBroadcastedConstant_half"

definition initialize_f16 :: "DeviceMemoryBase \<Rightarrow> Event list checked" where
  "initialize_f16 buffer =
     (if opaque buffer mod 4 \<noteq> 0 then CheckFailure ''0 == (uintptr_t)buffer.opaque() % 4''
      else
        let left_over_bytes = mem_size buffer mod 4 in
        if left_over_bytes mod 2 \<noteq> 0 then CheckFailure ''0 == left_over_bytes % 2''
        else
          let aligned_size = mem_size buffer div 4 * 4;
              left_over = \<lparr>opaque = opaque buffer + aligned_size, mem_size = left_over_bytes\<rparr>
          in Done [ThenMemset32 buffer bits aligned_size, ThenMemcpy left_over halfs left_over_bytes])"

text \<open>
  Lines 227-261. A failed check of \<open>initialize_f16\<close> ends the process; the operations
  put on the stream before it are then not kept in the trace.
\<close>

definition initialize_buffers ::
  "bool \<Rightarrow> DeviceMemoryBase \<Rightarrow> DeviceMemoryBase \<Rightarrow> DeviceMemoryBase \<Rightarrow> Event list checked" where
  "initialize_buffers cross_check_enabled input_buf filter_buf output_buf =
     (if cross_check_enabled then
        (case initialize_f16 input_buf of
           CheckFailure msg \<Rightarrow> CheckFailure msg
         | Done ops1 \<Rightarrow>
        (case initialize_f16 filter_buf of
           CheckFailure msg \<Rightarrow> CheckFailure msg
         | Done ops2 \<Rightarrow>
        (case initialize_f16 output_buf of
           CheckFailure msg \<Rightarrow> CheckFailure msg
         | Done ops3 \<Rightarrow> Done (ops1 @ ops2 @ ops3))))
      else Done [ThenMemZero input_buf (mem_size input_buf),
                 ThenMemZero filter_buf (mem_size filter_buf),
                 ThenMemZero output_buf (mem_size output_buf)])"

text \<open>The lambda of lines 264-273.\<close>

fun result_buf ::
  "CudnnConvKind \<Rightarrow> DeviceMemoryBase \<Rightarrow> DeviceMemoryBase \<Rightarrow> DeviceMemoryBase \<Rightarrow> DeviceMemoryBase" where
  "result_buf kBackwardFilter input_buf filter_buf output_buf = filter_buf"
| "result_buf kBackwardInput input_buf filter_buf output_buf = input_buf"
| "result_buf kForward input_buf filter_buf output_buf = output_buf"

text \<open>Lines 305-335: the cross check of an iteration whose run was valid.\<close>

definition cross_check ::
  "bool \<Rightarrow> bool \<Rightarrow> DeviceMemoryBase \<Rightarrow> string \<Rightarrow> AlgorithmDesc \<Rightarrow> 't Trial
     \<Rightarrow> Event list \<times> 't LoopState \<Rightarrow> Event list \<times> 't LoopState checked" where
  "cross_check cross_check_enabled crash_on_checking_failure res_buf instr_str alg t = (\<lambda>(tr, s).
     case comparator s of
       Some c \<Rightarrow>
         (case compare_equal t of
            Inl st \<Rightarrow>
              (tr @ [ComparatorCompareEqual c res_buf,
                     LOG_ERROR (UnableToCompare (first_algorithm s) alg instr_str st)],
               if crash_on_checking_failure then CheckFailure ''!crash_on_checking_failure''
               else Done s)
          | Inr equal \<Rightarrow>
              if \<not> equal then
                (tr @ [ComparatorCompareEqual c res_buf,
                       LOG_ERROR (ResultsMismatch instr_str (first_algorithm s) alg)],
                 if crash_on_checking_failure then CheckFailure ''!crash_on_checking_failure''
                 else Done s)
              else (tr @ [ComparatorCompareEqual c res_buf], Done s))
     | None \<Rightarrow>
         if cross_check_enabled then
           (case comparator_create t of
              None \<Rightarrow>
                (tr @ [ComparatorCreate res_buf],
                 Done (s\<lparr>comparator := Some (F16BufferComparator res_buf),
                          first_algorithm := Some alg\<rparr>))
            | Some st \<Rightarrow>
                (tr @ [ComparatorCreate res_buf,
                       LOG_ERROR (FailToInitializeComparator st instr_str)],
                 if crash_on_checking_failure then CheckFailure ''!crash_on_checking_failure''
                 else Done s))
         else (tr, Done s))"

text \<open>Lines 336-347: the running best.\<close>

definition update_best :: "('t::linorder) Trial \<Rightarrow> 't LoopState \<Rightarrow> 't LoopState" where
  "update_best t s =
     (let scratch_bytes_used = TotalAllocatedBytes (scratch_allocator t) in
      if elapsed_time_in_ms (profile_result t) < elapsed_time_in_ms (best_result s)
      then s\<lparr>best_result := profile_result t, best_result_bytes_used := scratch_bytes_used\<rparr>
      else s)"

definition valid_trial :: "'t Trial \<Rightarrow> bool" where
  "valid_trial t = (launch_ok t \<and> is_valid (profile_result t))"

text \<open>One iteration of the loop of lines 285-351.\<close>

definition trial_step ::
  "bool \<Rightarrow> bool \<Rightarrow> DeviceMemoryBase \<Rightarrow> string \<Rightarrow> Event list \<times> ('t::linorder) LoopState
     \<Rightarrow> AlgorithmDesc \<times> 't Trial \<Rightarrow> Event list \<times> 't LoopState checked" where
  "trial_step cross_check_enabled crash_on_checking_failure res_buf instr_str = (\<lambda>(tr, s) (alg, t).
     if valid_trial t then
       (case cross_check cross_check_enabled crash_on_checking_failure res_buf instr_str alg t
               (tr @ [RunConvolution alg], s) of
          (tr', CheckFailure msg) \<Rightarrow> (tr', CheckFailure msg)
        | (tr', Done s') \<Rightarrow> (tr', Done (update_best t s')))
     else (tr @ [RunConvolution alg], Done s))"

fun trials_loop ::
  "bool \<Rightarrow> bool \<Rightarrow> DeviceMemoryBase \<Rightarrow> string \<Rightarrow> Event list \<times> ('t::linorder) LoopState
     \<Rightarrow> (AlgorithmDesc \<times> 't Trial) list \<Rightarrow> Event list \<times> 't LoopState checked" where
  "trials_loop cc crash res_buf instr_str (tr, s) [] = (tr, Done s)"
| "trials_loop cc crash res_buf instr_str (tr, s) (x # xs) =
     (case trial_step cc crash res_buf instr_str (tr, s) x of
        (tr', CheckFailure msg) \<Rightarrow> (tr', CheckFailure msg)
      | (tr', Done s') \<Rightarrow> trials_loop cc crash res_buf instr_str (tr', s') xs)"


text \<open>
  An event of the trace that calls the comparator does so on buffer \<open>b\<close>, with a
  comparator that was created from \<open>b\<close>.
\<close>

definition uses_buffer :: "DeviceMemoryBase \<Rightarrow> Event \<Rightarrow> bool" where
  "uses_buffer b e =
     (case e of
        ComparatorCreate b' \<Rightarrow> b' = b
      | ComparatorCompareEqual c b' \<Rightarrow> b' = b \<and> c = F16BufferComparator b
      | _ \<Rightarrow> True)"



section \<open>Instructions and computations\<close>

record WindowDimension =
  window_size :: int
  window_stride :: int
  padding_low :: int
  padding_high :: int

type_synonym Window = "WindowDimension list"

record CudnnConvBackendConfig =
  config_algorithm :: int
  config_tensor_ops_enabled :: bool

datatype HloOpcode = kCustomCall | kGetTupleElement | kTuple | kConstant | kParameter

text \<open>
  An instruction of a computation. Operands are named by their position in the
  computation's list of instructions. \<open>xla_gpu_crash_on_verification_failures\<close> is the
  debug option of the module the instruction belongs to, which the source reads through
  \<open>instr->GetModule()->config().debug_options()\<close>.
\<close>

record HloInstruction =
  instr_name :: string
  opcode :: HloOpcode
  shape :: Shape
  operands :: "nat list"
  custom_call_target :: string
  tuple_index :: int
  window :: Window
  convolution_dimension_numbers :: ConvolutionDimensionNumbers
  backend_config :: "CudnnConvBackendConfig option"
  xla_gpu_crash_on_verification_failures :: bool

type_synonym HloComputation = "HloInstruction list"

text \<open>
  Modelled from the spec: \<open>HloInstruction\<close>, \<open>HloComputation\<close> and the helpers of
  \<^verbatim>\<open>ir_emission_utils\<close> are not among the sources. \<open>ToString\<close> identifies the operation;
  the three call targets are the forward, backward-input and backward-filter targets the
  rewriter classifies by; the \<open>Create...\<close> functions build an instruction of the given
  kind, shape and operands; \<open>AddInstruction\<close> appends it to the computation and returns
  where it is.
\<close>

definition ToString :: "HloInstruction \<Rightarrow> string" where
  "ToString instr = instr_name instr"

definition kCudnnConvForwardCallTarget :: string where
  "kCudnnConvForwardCallTarget = ''__cudnn$convForward''"

definition kCudnnConvBackwardInputCallTarget :: string where
  "kCudnnConvBackwardInputCallTarget = ''__cudnn$convBackwardInput''"

definition kCudnnConvBackwardFilterCallTarget :: string where
  "kCudnnConvBackwardFilterCallTarget = ''__cudnn$convBackwardFilter''"

definition IsCustomCallToDnnConvolution :: "HloInstruction \<Rightarrow> bool" where
  "IsCustomCallToDnnConvolution instr =
     (opcode instr = kCustomCall \<and>
      (custom_call_target instr = kCudnnConvForwardCallTarget \<or>
       custom_call_target instr = kCudnnConvBackwardInputCallTarget \<or>
       custom_call_target instr = kCudnnConvBackwardFilterCallTarget))"

definition empty_dnums :: ConvolutionDimensionNumbers where
  "empty_dnums =
     \<lparr>input_batch_dimension = 0, input_feature_dimension = 0, input_spatial_dimensions = [],
      kernel_input_feature_dimension = 0, kernel_output_feature_dimension = 0,
      kernel_spatial_dimensions = [], output_batch_dimension = 0,
      output_feature_dimension = 0, output_spatial_dimensions = []\<rparr>"

definition new_instruction ::
  "HloOpcode \<Rightarrow> Shape \<Rightarrow> nat list \<Rightarrow> bool \<Rightarrow> HloInstruction" where
  "new_instruction oc sh ops flag =
     \<lparr>instr_name = [], opcode = oc, shape = sh, operands = ops, custom_call_target = [],
      tuple_index = 0, window = [], convolution_dimension_numbers = empty_dnums,
      backend_config = None, xla_gpu_crash_on_verification_failures = flag\<rparr>"

definition CreateCustomCall :: "Shape \<Rightarrow> nat list \<Rightarrow> string \<Rightarrow> bool \<Rightarrow> HloInstruction" where
  "CreateCustomCall sh ops target flag =
     (new_instruction kCustomCall sh ops flag)\<lparr>custom_call_target := target\<rparr>"

definition CreateGetTupleElement :: "Shape \<Rightarrow> nat \<Rightarrow> int \<Rightarrow> bool \<Rightarrow> HloInstruction" where
  "CreateGetTupleElement sh operand index flag =
     (new_instruction kGetTupleElement sh [operand] flag)\<lparr>tuple_index := index\<rparr>"

text \<open>\<open>CreateConstant(LiteralUtil::CreateR1<uint8>({}))\<close>: the empty vector of bytes.\<close>

definition CreateConstant_empty_u8 :: "bool \<Rightarrow> HloInstruction" where
  "CreateConstant_empty_u8 flag = new_instruction kConstant (MakeShape U8 [0]) [] flag"

definition CreateTuple :: "HloComputation \<Rightarrow> nat list \<Rightarrow> bool \<Rightarrow> HloInstruction" where
  "CreateTuple computation elements flag =
     new_instruction kTuple (MakeTupleShape (map (\<lambda>e. shape (computation ! e)) elements))
       elements flag"

definition AddInstruction :: "HloComputation \<Rightarrow> HloInstruction \<Rightarrow> HloComputation \<times> nat" where
  "AddInstruction computation instr = (computation @ [instr], length computation)"

section \<open>The picker\<close>

text \<open>
  What a \<open>CudnnConvolutionAlgorithmPicker\<close> works with, beyond its arguments: the device
  allocator it resolved (lines 202-211: the member \<open>allocator\<close>, or a
  \<open>StreamExecutorMemoryAllocator\<close> when that is null) with the allocator's behaviour,
  \<open>ShapeUtil::ByteSizeOf\<close>, and what the stream executor, the convolution runner and the
  instruction graph answer. \<open>GetConvolve...Algorithms\<close> return their \<open>bool\<close> and the
  vector they filled. \<open>RunCudnnConvolution i alg\<close> is what iteration \<open>i\<close> of the loop,
  run with candidate \<open>alg\<close>, observes. \<open>default_ProfileResult\<close> is the
  default-constructed \<open>se::dnn::ProfileResult\<close> that \<open>best_result\<close> starts as.
\<close>

record ('m, 't) Picker =
  member_allocator :: "'m option"
  se_allocator :: 'm
  Allocate :: "'m DeviceMemoryAllocator"
  stream_exec_device_ordinal :: int
  ByteSizeOf :: "Shape \<Rightarrow> int"
  BlockHostUntilDone_status :: "Status option"
  GetVersion :: "Status + Version"
  GetConvolveAlgorithms :: "bool \<Rightarrow> bool \<times> AlgorithmDesc list"
  GetConvolveBackwardDataAlgorithms :: "bool \<Rightarrow> bool \<times> AlgorithmDesc list"
  GetConvolveBackwardFilterAlgorithms :: "bool \<Rightarrow> bool \<times> AlgorithmDesc list"
  RunCudnnConvolution :: "nat \<Rightarrow> AlgorithmDesc \<Rightarrow> 't Trial"
  default_ProfileResult :: "'t ProfileResult"
  set_backend_config_status :: "Status option"
  ReplaceInstruction :: "HloComputation \<Rightarrow> nat \<Rightarrow> nat \<Rightarrow> Status + HloComputation"

text \<open>\<open>GetAlgorithms\<close> (lines 108-128).\<close>

definition GetAlgorithms ::
  "('m, 't) Picker \<Rightarrow> CudnnConvKind \<Rightarrow> bool \<Rightarrow> AlgorithmDesc list checked" where
  "GetAlgorithms p kind with_winograd_nonfused =
     (case (case kind of
              kBackwardFilter \<Rightarrow> GetConvolveBackwardFilterAlgorithms p with_winograd_nonfused
            | kBackwardInput \<Rightarrow> GetConvolveBackwardDataAlgorithms p with_winograd_nonfused
            | kForward \<Rightarrow> GetConvolveAlgorithms p with_winograd_nonfused) of
        (ok, algorithms) \<Rightarrow>
          if ok then Done algorithms else CheckFailure ''GetConvolveAlgorithms'')"

text \<open>
  Lines 182-262 of \<open>PickBestAlgorithm\<close>: the checks on the element types, the three
  operand buffers taken from one \<open>ScratchAllocator\<close>, their initialisation, and the wait
  for the stream. The result is the trace so far and the three buffers. The lock of
  line 193 and the creation of the stream (lines 196-197) have no counterpart here: the
  model is of one call running alone, and \<open>stream.Init()\<close> returns nothing that the
  function reads.
\<close>

definition allocate_operands ::
  "('m, 't) Picker \<Rightarrow> Shape \<Rightarrow> Shape \<Rightarrow> Shape
     \<Rightarrow> (Status + DeviceMemoryBase \<times> DeviceMemoryBase \<times> DeviceMemoryBase) checked" where
  "allocate_operands p input_shape filter_shape output_shape =
     (let allocator = (case member_allocator p of Some a \<Rightarrow> a | None \<Rightarrow> se_allocator p);
          input_output_allocator = new_ScratchAllocator (stream_exec_device_ordinal p)
      in
      case AllocateBytes (Allocate p) (ByteSizeOf p input_shape)
             (input_output_allocator, allocator) of
        CheckFailure msg \<Rightarrow> CheckFailure msg
      | Done (Inl st, sa1, m1) \<Rightarrow> Done (Inl st)
      | Done (Inr input_buf, sa1, m1) \<Rightarrow>
      (case AllocateBytes (Allocate p) (ByteSizeOf p filter_shape) (sa1, m1) of
        CheckFailure msg \<Rightarrow> CheckFailure msg
      | Done (Inl st, sa2, m2) \<Rightarrow> Done (Inl st)
      | Done (Inr filter_buf, sa2, m2) \<Rightarrow>
      (case AllocateBytes (Allocate p) (ByteSizeOf p output_shape) (sa2, m2) of
        CheckFailure msg \<Rightarrow> CheckFailure msg
      | Done (Inl st, sa3, m3) \<Rightarrow> Done (Inl st)
      | Done (Inr output_buf, sa3, m3) \<Rightarrow> Done (Inr (input_buf, filter_buf, output_buf)))))"

definition prepare ::
  "('m, 't) Picker \<Rightarrow> Shape \<Rightarrow> Shape \<Rightarrow> Shape
     \<Rightarrow> Event list \<times> (Status + DeviceMemoryBase \<times> DeviceMemoryBase \<times> DeviceMemoryBase) checked" where
  "prepare p input_shape filter_shape output_shape =
     (if element_type input_shape \<noteq> element_type filter_shape
      then ([], CheckFailure ''input_shape.element_type() == filter_shape.element_type()'')
      else if element_type input_shape \<noteq> element_type output_shape
      then ([], CheckFailure ''input_shape.element_type() == output_shape.element_type()'')
      else
        let cross_check_enabled = (element_type input_shape = F16) in
        case allocate_operands p input_shape filter_shape output_shape of
          CheckFailure msg \<Rightarrow> ([], CheckFailure msg)
        | Done (Inl st) \<Rightarrow> ([], Done (Inl st))
        | Done (Inr (input_buf, filter_buf, output_buf)) \<Rightarrow>
          (case initialize_buffers cross_check_enabled input_buf filter_buf output_buf of
             CheckFailure msg \<Rightarrow> ([], CheckFailure msg)
           | Done init \<Rightarrow>
             (case BlockHostUntilDone_status p of
                Some st \<Rightarrow> (init @ [BlockHostUntilDone], Done (Inl st))
              | None \<Rightarrow>
                  (init @ [BlockHostUntilDone], Done (Inr (input_buf, filter_buf, output_buf))))))"

text \<open>Lines 275-276 and 286: the candidates the loop runs over.\<close>

definition candidates ::
  "('m, 't) Picker \<Rightarrow> CudnnConvKind \<Rightarrow> Shape \<Rightarrow> Shape \<Rightarrow> ConvolutionDimensionNumbers
     \<Rightarrow> AlgorithmDesc list checked" where
  "candidates p kind input_shape output_shape dnums =
     (case ShouldIncludeWinogradNonfusedAlgo input_shape output_shape dnums (GetVersion p) of
        None \<Rightarrow> CheckFailure ''dimension index out of range''
      | Some use_winograd_nonfused \<Rightarrow> GetAlgorithms p kind use_winograd_nonfused)"

definition trials_of ::
  "('m, 't) Picker \<Rightarrow> AlgorithmDesc list \<Rightarrow> (AlgorithmDesc \<times> 't Trial) list" where
  "trials_of p algorithms =
     map (\<lambda>(i, alg). (alg, RunCudnnConvolution p i alg)) (enumerate 0 algorithms)"

definition initial_state :: "('m, 't) Picker \<Rightarrow> 't LoopState" where
  "initial_state p =
     \<lparr>best_result = default_ProfileResult p, best_result_bytes_used = 0,
      comparator = None, first_algorithm = None\<rparr>"

text \<open>Lines 352-365: the value returned after the loop.\<close>

definition best_or_error :: "HloInstruction \<Rightarrow> 't LoopState \<Rightarrow> Status + int \<times> bool \<times> int" where
  "best_or_error instr s =
     (if is_valid (best_result s)
      then Inr (algo_id (algorithm (best_result s)),
                tensor_ops_enabled (algorithm (best_result s)),
                best_result_bytes_used s)
      else Inl (Status INTERNAL (AllAlgorithmsFailed (ToString instr))))"

definition PickBestAlgorithm ::
  "('m, 't::linorder) Picker \<Rightarrow> CudnnConvKind \<Rightarrow> Shape \<Rightarrow> Shape \<Rightarrow> Shape \<Rightarrow> Window
     \<Rightarrow> ConvolutionDimensionNumbers \<Rightarrow> HloInstruction
     \<Rightarrow> Event list \<times> (Status + int \<times> bool \<times> int) checked" where
  "PickBestAlgorithm p kind input_shape filter_shape output_shape win dnums instr =
     (case prepare p input_shape filter_shape output_shape of
        (tr, CheckFailure msg) \<Rightarrow> (tr, CheckFailure msg)
      | (tr, Done (Inl st)) \<Rightarrow> (tr, Done (Inl st))
      | (tr, Done (Inr (input_buf, filter_buf, output_buf))) \<Rightarrow>
        (case candidates p kind input_shape output_shape dnums of
           CheckFailure msg \<Rightarrow> (tr, CheckFailure msg)
         | Done algorithms \<Rightarrow>
           (case trials_loop (element_type input_shape = F16)
                   (xla_gpu_crash_on_verification_failures instr)
                   (result_buf kind input_buf filter_buf output_buf) (ToString instr)
                   (tr, initial_state p) (trials_of p algorithms) of
              (tr', CheckFailure msg) \<Rightarrow> (tr', CheckFailure msg)
            | (tr', Done s) \<Rightarrow> (tr', Done (best_or_error instr s)))))"

section \<open>The rewriter\<close>

text \<open>Lines 415-446 of \<open>RunOnInstruction\<close>: the replacement built from a pick.\<close>

definition replace_with_pick ::
  "('m, 't) Picker \<Rightarrow> HloComputation \<Rightarrow> nat \<Rightarrow> HloInstruction \<Rightarrow> Shape \<Rightarrow> nat \<Rightarrow> nat
     \<Rightarrow> int \<times> bool \<times> int \<Rightarrow> (Status + bool) \<times> HloComputation" where
  "replace_with_pick p computation instr_id instr conv_result_shape operand0 operand1 =
     (\<lambda>(algorithm, tensor_ops, scratch_bytes).
     let flag = xla_gpu_crash_on_verification_failures instr;
         new_call_shape = MakeTupleShape [conv_result_shape, MakeShape U8 [scratch_bytes]];
         config = \<lparr>config_algorithm = algorithm, config_tensor_ops_enabled = tensor_ops\<rparr>;
         (c1, new_call) = AddInstruction computation
            (CreateCustomCall new_call_shape [operand0, operand1] (custom_call_target instr) flag);
         c2 = c1[new_call := (c1 ! new_call)\<lparr>window := window instr\<rparr>];
         c3 = c2[new_call := (c2 ! new_call)\<lparr>convolution_dimension_numbers :=
                                               convolution_dimension_numbers instr\<rparr>]
     in
     case set_backend_config_status p of
       Some st \<Rightarrow> (Inl st, c3)
     | None \<Rightarrow>
         let c4 = c3[new_call := (c3 ! new_call)\<lparr>backend_config := Some config\<rparr>];
             (c5, gte) = AddInstruction c4 (CreateGetTupleElement conv_result_shape new_call 0 flag);
             (c6, empty) = AddInstruction c5 (CreateConstant_empty_u8 flag);
             (c7, new_tuple) = AddInstruction c6 (CreateTuple c6 [gte, empty] flag)
         in
         case ReplaceInstruction p c7 instr_id new_tuple of
           Inl st \<Rightarrow> (Inl st, c7)
         | Inr c8 \<Rightarrow> (Inr True, c8))"

text \<open>
  Lines 377-396 of \<open>RunOnInstruction\<close>: the call of \<open>PickBestAlgorithm\<close> with the
  roles of the three shapes that belong to the call target.
\<close>

definition PickBestAlgorithm_for_target ::
  "('m, 't::linorder) Picker \<Rightarrow> HloInstruction \<Rightarrow> Shape \<Rightarrow> Shape \<Rightarrow> Shape
     \<Rightarrow> Event list \<times> (Status + int \<times> bool \<times> int) checked" where
  "PickBestAlgorithm_for_target p instr lhs_shape rhs_shape conv_result_shape =
     (let call_target = custom_call_target instr in
      if call_target = kCudnnConvForwardCallTarget then
        PickBestAlgorithm p kForward lhs_shape rhs_shape conv_result_shape
          (window instr) (convolution_dimension_numbers instr) instr
      else if call_target = kCudnnConvBackwardInputCallTarget then
        PickBestAlgorithm p kBackwardInput conv_result_shape rhs_shape lhs_shape
          (window instr) (convolution_dimension_numbers instr) instr
      else if call_target = kCudnnConvBackwardFilterCallTarget then
        PickBestAlgorithm p kBackwardFilter lhs_shape conv_result_shape rhs_shape
          (window instr) (convolution_dimension_numbers instr) instr
      else ([], CheckFailure ''Unknown custom call target for cudnn conv''))"

text \<open>
  \<open>RunOnInstruction\<close> (lines 368-447) on the instruction at position \<open>instr_id\<close> of the
  computation. The result is the trace, what the function returns, and the computation
  as it leaves it.
\<close>

definition RunOnInstruction ::
  "('m, 't::linorder) Picker \<Rightarrow> HloComputation \<Rightarrow> nat
     \<Rightarrow> Event list \<times> ((Status + bool) \<times> HloComputation) checked" where
  "RunOnInstruction p computation instr_id =
     (case at_index computation (int instr_id) of
        None \<Rightarrow> ([], CheckFailure ''no such instruction'')
      | Some instr \<Rightarrow>
     if \<not> IsCustomCallToDnnConvolution instr
     then ([], CheckFailure ''IsCustomCallToDnnConvolution(*instr)'')
     else
       case (at_index (operands instr) 0, at_index (operands instr) 1,
             tuple_shapes (shape instr) 0) of
         (Some operand0, Some operand1, Some conv_result_shape) \<Rightarrow>
           (case (at_index computation (int operand0), at_index computation (int operand1)) of
              (Some lhs, Some rhs) \<Rightarrow>
                (case PickBestAlgorithm_for_target p instr (shape lhs) (shape rhs)
                        conv_result_shape of
                   (tr, CheckFailure msg) \<Rightarrow> (tr, CheckFailure msg)
                 | (tr, Done (Inl st)) \<Rightarrow>
                     (tr @ [LOG_ERROR (PickerStatus st)], Done (Inr False, computation))
                 | (tr, Done (Inr alg_scratch_and_tc)) \<Rightarrow>
                     (tr, Done (replace_with_pick p computation instr_id instr conv_result_shape
                                  operand0 operand1 alg_scratch_and_tc)))
            | _ \<Rightarrow> ([], CheckFailure ''no such operand''))
       | _ \<Rightarrow> ([], CheckFailure ''no such operand or tuple element''))"

section \<open>A concrete picker\<close>

text \<open>
  Data for running the model: a device with a bump allocator of 16 GiB, a library that
  offers algorithms 0 and 1 (and algorithm 5 as the non-fused Winograd one for forward
  convolutions), and a forward convolution of a \<open>1x2x8x8\<close> input with a \<open>4x2x3x3\<close>
  filter. Elapsed times are whole milliseconds.
\<close>

definition example_alg :: "int \<Rightarrow> AlgorithmDesc" where
  "example_alg i = \<lparr>algo_id = i, tensor_ops_enabled = False\<rparr>"

definition example_trial ::
  "bool \<Rightarrow> bool \<Rightarrow> int \<Rightarrow> int \<Rightarrow> int \<Rightarrow> Status option \<Rightarrow> Status + bool \<Rightarrow> int Trial" where
  "example_trial ok valid ms alg bytes create cmp =
     \<lparr>launch_ok = ok,
      profile_result = \<lparr>is_valid = valid, elapsed_time_in_ms = ms, algorithm = example_alg alg\<rparr>,
      scratch_allocator = \<lparr>device_ordinal = 0, allocated_buffers = [], total_allocated_bytes = bytes\<rparr>,
      comparator_create = create, compare_equal = cmp\<rparr>"

definition example_ByteSizeOf :: "Shape \<Rightarrow> int" where
  "example_ByteSizeOf sh =
     (case sh of
        ArrayShape t ds \<Rightarrow> prod_list ds * (if t = F16 then 2 else 4)
      | TupleShape ss \<Rightarrow> 0)"

definition example_picker ::
  "Status + Version \<Rightarrow> (nat \<Rightarrow> AlgorithmDesc \<Rightarrow> int Trial) \<Rightarrow> Status option \<Rightarrow> (int, int) Picker" where
  "example_picker version run set_config =
     \<lparr>member_allocator = None, se_allocator = 0, Allocate = bump_allocator (2 ^ 34),
      stream_exec_device_ordinal = 0, ByteSizeOf = example_ByteSizeOf,
      BlockHostUntilDone_status = None, GetVersion = version,
      GetConvolveAlgorithms = (\<lambda>w. (True, [example_alg 0, example_alg 1] @ (if w then [example_alg 5] else []))),
      GetConvolveBackwardDataAlgorithms = (\<lambda>w. (True, [example_alg 0, example_alg 1])),
      GetConvolveBackwardFilterAlgorithms = (\<lambda>w. (True, [example_alg 0, example_alg 1])),
      RunCudnnConvolution = run,
      default_ProfileResult = \<lparr>is_valid = False, elapsed_time_in_ms = 2 ^ 128, algorithm = example_alg (-1)\<rparr>,
      set_backend_config_status = set_config,
      ReplaceInstruction = (\<lambda>c old new. Inr (c[old := c ! new]))\<rparr>"

definition example_dnums :: ConvolutionDimensionNumbers where
  "example_dnums =
     \<lparr>input_batch_dimension = 0, input_feature_dimension = 1, input_spatial_dimensions = [2, 3],
      kernel_input_feature_dimension = 1, kernel_output_feature_dimension = 0,
      kernel_spatial_dimensions = [2, 3], output_batch_dimension = 0,
      output_feature_dimension = 1, output_spatial_dimensions = [2, 3]\<rparr>"

definition example_conv :: "PrimitiveType \<Rightarrow> bool \<Rightarrow> HloInstruction" where
  "example_conv ty crash =
     \<lparr>instr_name = ''conv'', opcode = kCustomCall,
      shape = TupleShape [ArrayShape ty [1, 4, 6, 6], ArrayShape U8 [0]],
      operands = [0, 1], custom_call_target = kCudnnConvForwardCallTarget, tuple_index = 0,
      window = [\<lparr>window_size = 3, window_stride = 1, padding_low = 0, padding_high = 0\<rparr>,
                \<lparr>window_size = 3, window_stride = 1, padding_low = 0, padding_high = 0\<rparr>],
      convolution_dimension_numbers = example_dnums, backend_config = None,
      xla_gpu_crash_on_verification_failures = crash\<rparr>"

definition example_computation :: "PrimitiveType \<Rightarrow> bool \<Rightarrow> HloComputation" where
  "example_computation ty crash =
     [(new_instruction kParameter (ArrayShape ty [1, 2, 8, 8]) [] crash)\<lparr>instr_name := ''lhs''\<rparr>,
      (new_instruction kParameter (ArrayShape ty [4, 2, 3, 3]) [] crash)\<lparr>instr_name := ''rhs''\<rparr>,
      example_conv ty crash]"

text \<open>Two candidates that succeed in 10 ms and 5 ms without scratch memory and agree.\<close>

definition example_run :: "nat \<Rightarrow> AlgorithmDesc \<Rightarrow> int Trial" where
  "example_run i alg =
     (if i = 0 then example_trial True True 10 (algo_id alg) 0 None (Inr True)
      else if i = 1 then example_trial True True 5 (algo_id alg) 0 None (Inr True)
      else example_trial False False 0 (algo_id alg) 0 None (Inr True))"

definition example_v6 :: "Status + Version" where
  "example_v6 = Inr \<lparr>major_version = 6, minor_version = 0, patch_version = 0\<rparr>"


text \<open>Two candidates that fail: one launch error, one invalid profile.\<close>

definition example_run_failing :: "nat \<Rightarrow> AlgorithmDesc \<Rightarrow> int Trial" where
  "example_run_failing i alg =
     (if i = 0 then example_trial False True 3 (algo_id alg) 0 None (Inr True)
      else example_trial True False 4 (algo_id alg) 0 None (Inr True))"






text \<open>
  The operand buffers of the example convolution on 16-bit floats and the trace of their
  initialisation.
\<close>

definition example_input_buf :: DeviceMemoryBase where
  "example_input_buf = \<lparr>opaque = 0, mem_size = 256\<rparr>"

definition example_filter_buf :: DeviceMemoryBase where
  "example_filter_buf = \<lparr>opaque = 256, mem_size = 144\<rparr>"

definition example_output_buf :: DeviceMemoryBase where
  "example_output_buf = \<lparr>opaque = 400, mem_size = 288\<rparr>"

definition example_init_f16 :: "Event list" where
  "example_init_f16 =
     [ThenMemset32 example_input_buf 0x2E662E66 256,
      ThenMemcpy \<lparr>opaque = 256, mem_size = 0\<rparr> [0x2E66, 0x2E66] 0,
      ThenMemset32 example_filter_buf 0x2E662E66 144,
      ThenMemcpy \<lparr>opaque = 400, mem_size = 0\<rparr> [0x2E66, 0x2E66] 0,
      ThenMemset32 example_output_buf 0x2E662E66 288,
      ThenMemcpy \<lparr>opaque = 688, mem_size = 0\<rparr> [0x2E66, 0x2E66] 0,
      BlockHostUntilDone]"

definition example_input_shape :: Shape where
  "example_input_shape = ArrayShape F16 [1, 2, 8, 8]"

definition example_filter_shape :: Shape where
  "example_filter_shape = ArrayShape F16 [4, 2, 3, 3]"

definition example_output_shape :: Shape where
  "example_output_shape = ArrayShape F16 [1, 4, 6, 6]"

text \<open>
  Shapes at the edge: an input of 8 GiB, and a one-dimensional convolution on 16-bit floats
  whose input has \<open>2 ^ 31\<close> positions and whose output has \<open>2 ^ 31\<close> features (4 GiB
  each). A version query that failed.
\<close>

definition example_huge_shape :: Shape where
  "example_huge_shape = ArrayShape F32 [1, 2, 32768, 32768]"

definition example_long_input_shape :: Shape where
  "example_long_input_shape = ArrayShape F16 [1, 1, 2147483648]"

definition example_long_output_shape :: Shape where
  "example_long_output_shape = ArrayShape F16 [1, 2147483648, 1]"

definition example_dnums_1d :: ConvolutionDimensionNumbers where
  "example_dnums_1d =
     \<lparr>input_batch_dimension = 0, input_feature_dimension = 1, input_spatial_dimensions = [2],
      kernel_input_feature_dimension = 1, kernel_output_feature_dimension = 0,
      kernel_spatial_dimensions = [2], output_batch_dimension = 0,
      output_feature_dimension = 1, output_spatial_dimensions = [2]\<rparr>"

definition example_query_failed :: "Status + Version" where
  "example_query_failed = Inl (Status INTERNAL (Text ''cuDNN version query failed''))"


text \<open>The picker of the example when the backend config cannot be stored.\<close>

definition example_picker_config_fails :: "(int, int) Picker" where
  "example_picker_config_fails =
     example_picker example_v6 example_run (Some (Status INTERNAL (Text ''cannot serialize'')))"


text \<open>
  The example convolution with 7 bytes of scratch in its shape, in a computation of its
  own.
\<close>

definition example_conv_scratch :: HloInstruction where
  "example_conv_scratch =
     (example_conv F16 False)
       \<lparr>shape := TupleShape [ArrayShape F16 [1, 4, 6, 6], ArrayShape U8 [7]]\<rparr>"

definition example_computation_scratch :: HloComputation where
  "example_computation_scratch =
     [(new_instruction kParameter (ArrayShape F16 [1, 2, 8, 8]) [] False)\<lparr>instr_name := ''lhs''\<rparr>,
      (new_instruction kParameter (ArrayShape F16 [4, 2, 3, 3]) [] False)\<lparr>instr_name := ''rhs''\<rparr>,
      example_conv_scratch]"

text \<open>
  The picker of the example with a \<open>ReplaceInstruction\<close> that refuses a replacement of
  another shape.
\<close>

definition example_picker_replace_checks :: "(int, int) Picker" where
  "example_picker_replace_checks =
     (example_picker example_v6 example_run None)
       \<lparr>ReplaceInstruction := (\<lambda>c old new.
          if shape (c ! old) = shape (c ! new) then Inr (c[old := c ! new])
          else Inl (Status INTERNAL (Text ''shapes differ'')))\<rparr>"

section \<open>Properties of ScratchAllocator\<close>

lemma AllocateBytes_over_limit:
  "0 \<le> byte_size \<Longrightarrow> byte_size > 2 ^ 32 \<Longrightarrow>
   AllocateBytes alloc byte_size (sa, m) =
     Done (Inl (Status RESOURCE_EXHAUSTED (ExceedsMemoryLimit byte_size (2 ^ 32))), sa, m)"
  by (simp add: AllocateBytes_def GetMemoryLimitInBytes_def)

lemma AllocateBytes_success_bound:
  "AllocateBytes alloc byte_size (sa, m) = Done (Inr buf, sa', m') \<Longrightarrow>
   0 \<le> byte_size \<and> byte_size \<le> 2 ^ 32"
  by (auto simp: AllocateBytes_def GetMemoryLimitInBytes_def
           split: if_splits prod.splits sum.splits)

lemma AllocateBytes_total_step:
  "AllocateBytes alloc byte_size (sa, m) = Done (r, sa', m') \<Longrightarrow>
   total_allocated_bytes sa \<le> 2 ^ 32 * int (length (allocated_buffers sa)) \<Longrightarrow>
   total_allocated_bytes sa' \<le> 2 ^ 32 * int (length (allocated_buffers sa'))"
  by (auto simp: AllocateBytes_def GetMemoryLimitInBytes_def
           split: if_splits prod.splits sum.splits)

lemma AllocateBytesSeq_total:
  "AllocateBytesSeq alloc bs (sa, m) = Done (sa', m') \<Longrightarrow>
   total_allocated_bytes sa \<le> 2 ^ 32 * int (length (allocated_buffers sa)) \<Longrightarrow>
   total_allocated_bytes sa' \<le> 2 ^ 32 * int (length (allocated_buffers sa'))"
proof (induction bs arbitrary: sa m)
  case Nil
  then show ?case by simp
next
  case (Cons b bs)
  from Cons.prems(1) obtain r sa1 m1 where
    step: "AllocateBytes alloc b (sa, m) = Done (r, sa1, m1)" and
    rest: "AllocateBytesSeq alloc bs (sa1, m1) = Done (sa', m')"
    by (auto split: checked.splits prod.splits)
  from AllocateBytes_total_step [OF step Cons.prems(2)] Cons.IH [OF rest]
  show ?case by simp
qed

text \<open>
  C10. \<open>AllocateBytes\<close> is atomic on failure: when it returns an error (the request is
  over the memory limit, or the device allocator fails) the running total and the list
  of owned buffers are unchanged; when it succeeds the total grows by exactly the
  requested byte count and exactly one buffer is appended to the owned list.
\<close>

theorem AllocateBytes_atomic:
  "(AllocateBytes alloc byte_size (sa, m) = Done (Inl e, sa', m') \<longrightarrow>
      TotalAllocatedBytes sa' = TotalAllocatedBytes sa \<and>
      allocated_buffers sa' = allocated_buffers sa) \<and>
   (AllocateBytes alloc byte_size (sa, m) = Done (Inr buf, sa', m') \<longrightarrow>
      TotalAllocatedBytes sa' = TotalAllocatedBytes sa + byte_size \<and>
      (\<exists>b. allocated_buffers sa' = allocated_buffers sa @ [b] \<and> AsDeviceMemoryBase b = buf))"
  by (auto simp: AllocateBytes_def TotalAllocatedBytes_def
           split: if_splits prod.splits sum.splits)

theorem AllocateBytes_atomic_witness:
  "AllocateBytes (bump_allocator 100) 200 (new_ScratchAllocator 0, 0) =
     Done (Inl (Status RESOURCE_EXHAUSTED (Text ''Out of memory'')), new_ScratchAllocator 0, 0) \<and>
   AllocateBytes (bump_allocator 100) 40 (new_ScratchAllocator 0, 0) =
     Done (Inr \<lparr>opaque = 0, mem_size = 40\<rparr>,
           \<lparr>device_ordinal = 0,
            allocated_buffers = [\<lparr>owned_opaque = 0, owned_size = 40, owned_device_ordinal = 0\<rparr>],
            total_allocated_bytes = 40\<rparr>, 40) \<and>
   TotalAllocatedBytes \<lparr>device_ordinal = 0,
            allocated_buffers = [\<lparr>owned_opaque = 0, owned_size = 40, owned_device_ordinal = 0\<rparr>],
            total_allocated_bytes = 40\<rparr> = TotalAllocatedBytes (new_ScratchAllocator 0) + 40"
proof -
  have fails: "AllocateBytes (bump_allocator 100) 200 (new_ScratchAllocator 0, 0) =
     Done (Inl (Status RESOURCE_EXHAUSTED (Text ''Out of memory'')), new_ScratchAllocator 0, 0)"
    by (simp add: AllocateBytes_def bump_allocator_def new_ScratchAllocator_def
          GetMemoryLimitInBytes_def)
  have succeeds: "AllocateBytes (bump_allocator 100) 40 (new_ScratchAllocator 0, 0) =
     Done (Inr \<lparr>opaque = 0, mem_size = 40\<rparr>,
           \<lparr>device_ordinal = 0,
            allocated_buffers = [\<lparr>owned_opaque = 0, owned_size = 40, owned_device_ordinal = 0\<rparr>],
            total_allocated_bytes = 40\<rparr>, 40)"
    by (simp add: AllocateBytes_def bump_allocator_def new_ScratchAllocator_def
          GetMemoryLimitInBytes_def AsDeviceMemoryBase_def)
  from AllocateBytes_atomic [of "bump_allocator 100" 200 "new_ScratchAllocator 0" 0
      "Status RESOURCE_EXHAUSTED (Text ''Out of memory'')" "new_ScratchAllocator 0" 0]
    AllocateBytes_atomic [of "bump_allocator 100" 40 "new_ScratchAllocator 0" 0 _
      "\<lparr>device_ordinal = 0,
        allocated_buffers = [\<lparr>owned_opaque = 0, owned_size = 40, owned_device_ordinal = 0\<rparr>],
        total_allocated_bytes = 40\<rparr>" 40 "\<lparr>opaque = 0, mem_size = 40\<rparr>"]
    fails succeeds
  show ?thesis by blast
qed

section \<open>Properties of the benchmark loop\<close>


lemma trial_step_invalid:
  "\<not> valid_trial t \<Longrightarrow>
   trial_step cc crash rb istr (tr, s) (alg, t) = (tr @ [RunConvolution alg], Done s)"
  by (simp add: trial_step_def)


lemma trials_loop_all_invalid:
  "\<forall>(a, t) \<in> set ts. \<not> valid_trial t \<Longrightarrow>
   trials_loop cc crash rb istr (tr, s) ts = (tr @ map (\<lambda>(a, t). RunConvolution a) ts, Done s)"
  by (induction ts arbitrary: tr) (auto simp: trial_step_invalid)





lemma initialize_f16_Done:
  "initialize_f16 buffer = Done ops \<Longrightarrow>
   ops = [ThenMemset32 buffer bits (mem_size buffer div 4 * 4),
          ThenMemcpy \<lparr>opaque = opaque buffer + mem_size buffer div 4 * 4,
                      mem_size = mem_size buffer mod 4\<rparr> halfs (mem_size buffer mod 4)]"
  by (auto simp: initialize_f16_def Let_def split: if_splits)

lemma initialize_buffers_Done:
  "initialize_buffers cc input_buf filter_buf output_buf = Done init \<Longrightarrow>
   init =
     (if cc then
        [ThenMemset32 input_buf bits (mem_size input_buf div 4 * 4),
         ThenMemcpy \<lparr>opaque = opaque input_buf + mem_size input_buf div 4 * 4,
                     mem_size = mem_size input_buf mod 4\<rparr> halfs (mem_size input_buf mod 4),
         ThenMemset32 filter_buf bits (mem_size filter_buf div 4 * 4),
         ThenMemcpy \<lparr>opaque = opaque filter_buf + mem_size filter_buf div 4 * 4,
                     mem_size = mem_size filter_buf mod 4\<rparr> halfs (mem_size filter_buf mod 4),
         ThenMemset32 output_buf bits (mem_size output_buf div 4 * 4),
         ThenMemcpy \<lparr>opaque = opaque output_buf + mem_size output_buf div 4 * 4,
                     mem_size = mem_size output_buf mod 4\<rparr> halfs (mem_size output_buf mod 4)]
      else
        [ThenMemZero input_buf (mem_size input_buf),
         ThenMemZero filter_buf (mem_size filter_buf),
         ThenMemZero output_buf (mem_size output_buf)])"
  by (auto simp: initialize_buffers_def split: if_splits checked.splits
           dest!: initialize_f16_Done)

lemma prepare_Done:
  assumes "prepare p input_shape filter_shape output_shape =
             (tr, Done (Inr (input_buf, filter_buf, output_buf)))"
  shows "allocate_operands p input_shape filter_shape output_shape =
           Done (Inr (input_buf, filter_buf, output_buf)) \<and>
         BlockHostUntilDone_status p = None \<and>
         (\<exists>init. initialize_buffers (element_type input_shape = F16)
                    input_buf filter_buf output_buf = Done init \<and>
                 tr = init @ [BlockHostUntilDone])"
  using assms
  by (auto simp: prepare_def Let_def
           split: if_splits checked.splits sum.splits prod.splits option.splits)

lemma prepare_no_trial:
  "prepare p input_shape filter_shape output_shape = (tr, r) \<Longrightarrow> RunConvolution a \<notin> set tr"
  by (auto simp: prepare_def Let_def
           split: if_splits checked.splits sum.splits prod.splits option.splits
           dest!: initialize_buffers_Done)

lemma cross_check_trace:
  "cross_check cc crash rb istr alg t (tr, s) = (tr', x) \<Longrightarrow> \<exists>rest. tr' = tr @ rest"
  by (auto simp: cross_check_def split: option.splits sum.splits if_splits)

lemma trial_step_trace:
  "trial_step cc crash rb istr (tr, s) (alg, t) = (tr', x) \<Longrightarrow> \<exists>rest. tr' = tr @ rest"
  by (auto simp: trial_step_def split: if_splits prod.splits checked.splits
           dest!: cross_check_trace)

lemma trials_loop_trace:
  "trials_loop cc crash rb istr (tr, s) ts = (tr', x) \<Longrightarrow> \<exists>rest. tr' = tr @ rest"
proof (induction ts arbitrary: tr s)
  case Nil
  then show ?case by simp
next
  case (Cons y ys)
  obtain alg t where y: "y = (alg, t)" by (cases y)
  obtain tr1 x1 where step: "trial_step cc crash rb istr (tr, s) (alg, t) = (tr1, x1)"
    by (cases "trial_step cc crash rb istr (tr, s) (alg, t)")
  from trial_step_trace [OF step] obtain r1 where tr1: "tr1 = tr @ r1" by blast
  show ?case
  proof (cases x1)
    case (CheckFailure msg)
    with Cons.prems step tr1 show ?thesis unfolding y by auto
  next
    case (Done s1)
    with Cons.prems step have "trials_loop cc crash rb istr (tr1, s1) ys = (tr', x)"
      unfolding y by simp
    from Cons.IH [OF this] tr1 show ?thesis by auto
  qed
qed

lemma cross_check_uses:
  assumes "cross_check cc crash rb istr alg t (tr, s) = (tr', x)"
    and "\<forall>e \<in> set tr. uses_buffer rb e"
    and "\<forall>c. comparator s = Some c \<longrightarrow> c = F16BufferComparator rb"
  shows "(\<forall>e \<in> set tr'. uses_buffer rb e) \<and>
         (\<forall>s'. x = Done s' \<longrightarrow> (\<forall>c. comparator s' = Some c \<longrightarrow> c = F16BufferComparator rb))"
  using assms
  by (auto simp: cross_check_def uses_buffer_def split: option.splits sum.splits if_splits)

lemma update_best_keeps_reference:
  "comparator (update_best t s) = comparator s"
  "first_algorithm (update_best t s) = first_algorithm s"
  by (simp_all add: update_best_def Let_def)

lemma trial_step_uses:
  assumes "trial_step cc crash rb istr (tr, s) (alg, t) = (tr', x)"
    and "\<forall>e \<in> set tr. uses_buffer rb e"
    and "\<forall>c. comparator s = Some c \<longrightarrow> c = F16BufferComparator rb"
  shows "(\<forall>e \<in> set tr'. uses_buffer rb e) \<and>
         (\<forall>s'. x = Done s' \<longrightarrow> (\<forall>c. comparator s' = Some c \<longrightarrow> c = F16BufferComparator rb))"
proof (cases "valid_trial t")
  case False
  with assms show ?thesis by (auto simp: trial_step_def uses_buffer_def)
next
  case True
  obtain tr1 x1 where cc: "cross_check cc crash rb istr alg t (tr @ [RunConvolution alg], s) = (tr1, x1)"
    by (cases "cross_check cc crash rb istr alg t (tr @ [RunConvolution alg], s)")
  from assms(2) have "\<forall>e \<in> set (tr @ [RunConvolution alg]). uses_buffer rb e"
    by (auto simp: uses_buffer_def)
  from cross_check_uses [OF cc this assms(3)] assms(1) True cc
  show ?thesis
    by (cases x1) (auto simp: trial_step_def update_best_keeps_reference)
qed

lemma trials_loop_uses:
  assumes "trials_loop cc crash rb istr (tr, s) ts = (tr', x)"
    and "\<forall>e \<in> set tr. uses_buffer rb e"
    and "\<forall>c. comparator s = Some c \<longrightarrow> c = F16BufferComparator rb"
  shows "\<forall>e \<in> set tr'. uses_buffer rb e"
  using assms
proof (induction ts arbitrary: tr s)
  case Nil
  then show ?case by simp
next
  case (Cons y ys)
  obtain alg t where y: "y = (alg, t)" by (cases y)
  obtain tr1 x1 where step: "trial_step cc crash rb istr (tr, s) (alg, t) = (tr1, x1)"
    by (cases "trial_step cc crash rb istr (tr, s) (alg, t)")
  note inv = trial_step_uses [OF step Cons.prems(2,3)]
  show ?case
  proof (cases x1)
    case (CheckFailure msg)
    with Cons.prems(1) step inv show ?thesis unfolding y by auto
  next
    case (Done s1)
    with Cons.prems(1) step have "trials_loop cc crash rb istr (tr1, s1) ys = (tr', x)"
      unfolding y by simp
    from Cons.IH [OF this] inv Done show ?thesis by blast
  qed
qed

lemma prepare_uses:
  "prepare p input_shape filter_shape output_shape = (tr, r) \<Longrightarrow> \<forall>e \<in> set tr. uses_buffer b e"
  by (auto simp: prepare_def Let_def uses_buffer_def
           split: if_splits checked.splits sum.splits prod.splits option.splits
           dest!: initialize_buffers_Done)














section \<open>Properties of the picker and the rewriter\<close>

lemma map_fst_trials_of: "map fst (trials_of p algorithms) = algorithms"
proof -
  have "map fst (trials_of p algorithms) = map snd (enumerate 0 algorithms)"
    by (simp add: trials_of_def case_prod_unfold comp_def)
  then show ?thesis by simp
qed

lemma map_RunConvolution_trials_of:
  "map (\<lambda>(a, t). RunConvolution a) (trials_of p algorithms) = map RunConvolution algorithms"
proof -
  have "map (\<lambda>(a, t). RunConvolution a) (trials_of p algorithms) =
        map RunConvolution (map fst (trials_of p algorithms))"
    by (simp add: case_prod_unfold comp_def)
  then show ?thesis by (simp only: map_fst_trials_of)
qed

lemma PickBestAlgorithm_reaches_loop:
  assumes "prepare p input_shape filter_shape output_shape = (tr, Done (Inr (input_buf, filter_buf, output_buf)))"
    and "candidates p kind input_shape output_shape dnums = Done algorithms"
  shows "PickBestAlgorithm p kind input_shape filter_shape output_shape win dnums instr =
     (case trials_loop (element_type input_shape = F16)
                   (xla_gpu_crash_on_verification_failures instr)
                   (result_buf kind input_buf filter_buf output_buf) (ToString instr)
                   (tr, initial_state p) (trials_of p algorithms) of
              (tr', CheckFailure msg) \<Rightarrow> (tr', CheckFailure msg)
            | (tr', Done s) \<Rightarrow> (tr', Done (best_or_error instr s)))"
  using assms by (simp add: PickBestAlgorithm_def)

lemma PickBestAlgorithm_all_failed:
  assumes prep: "prepare p input_shape filter_shape output_shape = (tr, Done (Inr bufs))"
    and cands: "candidates p kind input_shape output_shape dnums = Done algorithms"
    and invalid: "\<forall>(a, t) \<in> set (trials_of p algorithms). \<not> valid_trial t"
    and dflt: "\<not> is_valid (default_ProfileResult p)"
  shows "PickBestAlgorithm p kind input_shape filter_shape output_shape win dnums instr =
     (tr @ map RunConvolution algorithms,
      Done (Inl (Status INTERNAL (AllAlgorithmsFailed (ToString instr)))))"
proof -
  obtain input_buf filter_buf output_buf where bufs: "bufs = (input_buf, filter_buf, output_buf)"
    by (cases bufs)
  from dflt have "best_or_error instr (initial_state p) =
      Inl (Status INTERNAL (AllAlgorithmsFailed (ToString instr)))"
    by (simp add: best_or_error_def initial_state_def)
  then show ?thesis
    unfolding PickBestAlgorithm_reaches_loop [OF prep [unfolded bufs] cands]
      trials_loop_all_invalid [OF invalid] map_RunConvolution_trials_of
    by simp
qed

lemma RunOnInstruction_pick_error:
  assumes "at_index computation (int instr_id) = Some instr"
    and "IsCustomCallToDnnConvolution instr"
    and "at_index (operands instr) 0 = Some operand0"
    and "at_index (operands instr) 1 = Some operand1"
    and "tuple_shapes (shape instr) 0 = Some conv_result_shape"
    and "at_index computation (int operand0) = Some lhs"
    and "at_index computation (int operand1) = Some rhs"
    and "PickBestAlgorithm_for_target p instr (shape lhs) (shape rhs) conv_result_shape =
           (tr, Done (Inl st))"
  shows "RunOnInstruction p computation instr_id =
           (tr @ [LOG_ERROR (PickerStatus st)], Done (Inr False, computation))"
  using assms by (simp add: RunOnInstruction_def)

lemma PickBestAlgorithm_for_target_roles:
  assumes "(custom_call_target instr = kCudnnConvForwardCallTarget \<and> kind = kForward \<and>
        input_shape = lhs_shape \<and> filter_shape = rhs_shape \<and>
        output_shape = conv_result_shape) \<or>
       (custom_call_target instr = kCudnnConvBackwardInputCallTarget \<and> kind = kBackwardInput \<and>
        input_shape = conv_result_shape \<and> filter_shape = rhs_shape \<and>
        output_shape = lhs_shape) \<or>
       (custom_call_target instr = kCudnnConvBackwardFilterCallTarget \<and>
        kind = kBackwardFilter \<and>
        input_shape = lhs_shape \<and> filter_shape = conv_result_shape \<and>
        output_shape = rhs_shape)"
  shows "PickBestAlgorithm_for_target p instr lhs_shape rhs_shape conv_result_shape =
         PickBestAlgorithm p kind input_shape filter_shape output_shape (window instr)
           (convolution_dimension_numbers instr) instr"
  using assms
  by (auto simp: PickBestAlgorithm_for_target_def kCudnnConvForwardCallTarget_def
        kCudnnConvBackwardInputCallTarget_def kCudnnConvBackwardFilterCallTarget_def)

text \<open>
  C4. If every candidate trial fails or returns an invalid profile, \<open>PickBestAlgorithm\<close>
  returns the internal error that names the operation ("All algorithms tried for
  convolution ... failed"), and \<open>RunOnInstruction\<close> logs that error, returns
  \<open>changed = false\<close> and leaves the computation as it was. The picking call is one that
  reached its candidate loop (\<open>prepare\<close> and \<open>candidates\<close> succeeded); the
  default-constructed profile is not valid.
\<close>

theorem all_algorithms_failed:
  assumes instr: "at_index computation (int instr_id) = Some instr"
      "IsCustomCallToDnnConvolution instr"
    and ops: "at_index (operands instr) 0 = Some operand0"
      "at_index (operands instr) 1 = Some operand1"
      "at_index computation (int operand0) = Some lhs"
      "at_index computation (int operand1) = Some rhs"
      "tuple_shapes (shape instr) 0 = Some conv_result_shape"
    and roles:
      "(custom_call_target instr = kCudnnConvForwardCallTarget \<and> kind = kForward \<and>
        input_shape = shape lhs \<and> filter_shape = shape rhs \<and>
        output_shape = conv_result_shape) \<or>
       (custom_call_target instr = kCudnnConvBackwardInputCallTarget \<and> kind = kBackwardInput \<and>
        input_shape = conv_result_shape \<and> filter_shape = shape rhs \<and>
        output_shape = shape lhs) \<or>
       (custom_call_target instr = kCudnnConvBackwardFilterCallTarget \<and>
        kind = kBackwardFilter \<and>
        input_shape = shape lhs \<and> filter_shape = conv_result_shape \<and>
        output_shape = shape rhs)"
    and prep: "prepare p input_shape filter_shape output_shape = (tr, Done (Inr bufs))"
    and cands: "candidates p kind input_shape output_shape (convolution_dimension_numbers instr)
                  = Done algorithms"
    and invalid: "\<forall>(a, t) \<in> set (trials_of p algorithms). \<not> valid_trial t"
    and dflt: "\<not> is_valid (default_ProfileResult p)"
  shows "PickBestAlgorithm p kind input_shape filter_shape output_shape (window instr)
           (convolution_dimension_numbers instr) instr =
         (tr @ map RunConvolution algorithms,
          Done (Inl (Status INTERNAL (AllAlgorithmsFailed (ToString instr))))) \<and>
       RunOnInstruction p computation instr_id =
         (tr @ map RunConvolution algorithms @
            [LOG_ERROR (PickerStatus (Status INTERNAL (AllAlgorithmsFailed (ToString instr))))],
          Done (Inr False, computation))"
proof -
  have pick: "PickBestAlgorithm p kind input_shape filter_shape output_shape (window instr)
           (convolution_dimension_numbers instr) instr =
         (tr @ map RunConvolution algorithms,
          Done (Inl (Status INTERNAL (AllAlgorithmsFailed (ToString instr)))))"
    by (rule PickBestAlgorithm_all_failed [OF prep cands invalid dflt])
  have "PickBestAlgorithm_for_target p instr (shape lhs) (shape rhs) conv_result_shape =
         (tr @ map RunConvolution algorithms,
          Done (Inl (Status INTERNAL (AllAlgorithmsFailed (ToString instr)))))"
    unfolding PickBestAlgorithm_for_target_roles [OF roles] by (rule pick)
  from RunOnInstruction_pick_error [OF instr ops(1,2,5,3,4) this] pick
  show ?thesis by simp
qed


theorem all_algorithms_failed_witness:
  "snd (PickBestAlgorithm (example_picker example_v6 example_run_failing None) kForward
          (ArrayShape F32 [1, 2, 8, 8]) (ArrayShape F32 [4, 2, 3, 3]) (ArrayShape F32 [1, 4, 6, 6])
          (window (example_conv F32 False)) example_dnums (example_conv F32 False)) =
     Done (Inl (Status INTERNAL (AllAlgorithmsFailed ''conv''))) \<and>
   RunOnInstruction (example_picker example_v6 example_run_failing None)
       (example_computation F32 False) 2 =
     ([ThenMemZero \<lparr>opaque = 0, mem_size = 512\<rparr> 512,
       ThenMemZero \<lparr>opaque = 512, mem_size = 288\<rparr> 288,
       ThenMemZero \<lparr>opaque = 800, mem_size = 576\<rparr> 576,
       BlockHostUntilDone,
       RunConvolution (example_alg 0), RunConvolution (example_alg 1),
       RunConvolution (example_alg 5),
       LOG_ERROR (PickerStatus (Status INTERNAL (AllAlgorithmsFailed ''conv'')))],
      Done (Inr False, example_computation F32 False))"
proof -
  let ?p = "example_picker example_v6 example_run_failing None"
  let ?c = "example_computation F32 False"
  let ?i = "example_conv F32 False"
  have instr: "at_index ?c (int 2) = Some ?i" "IsCustomCallToDnnConvolution ?i"
    by code_simp+
  have ops: "at_index (operands ?i) 0 = Some 0" "at_index (operands ?i) 1 = Some 1"
    "at_index ?c (int 0) = Some (?c ! 0)" "at_index ?c (int 1) = Some (?c ! 1)"
    "tuple_shapes (shape ?i) 0 = Some (ArrayShape F32 [1, 4, 6, 6])"
    by code_simp+
  have shapes: "shape (?c ! 0) = ArrayShape F32 [1, 2, 8, 8]"
    "shape (?c ! 1) = ArrayShape F32 [4, 2, 3, 3]"
    by code_simp+
  have roles: "(custom_call_target ?i = kCudnnConvForwardCallTarget \<and> kForward = kForward \<and>
        ArrayShape F32 [1, 2, 8, 8] = shape (?c ! 0) \<and> ArrayShape F32 [4, 2, 3, 3] = shape (?c ! 1) \<and>
        ArrayShape F32 [1, 4, 6, 6] = ArrayShape F32 [1, 4, 6, 6]) \<or>
       (custom_call_target ?i = kCudnnConvBackwardInputCallTarget \<and> kForward = kBackwardInput \<and>
        ArrayShape F32 [1, 2, 8, 8] = ArrayShape F32 [1, 4, 6, 6] \<and> ArrayShape F32 [4, 2, 3, 3] = shape (?c ! 1) \<and>
        ArrayShape F32 [1, 4, 6, 6] = shape (?c ! 0)) \<or>
       (custom_call_target ?i = kCudnnConvBackwardFilterCallTarget \<and>
        kForward = kBackwardFilter \<and>
        ArrayShape F32 [1, 2, 8, 8] = shape (?c ! 0) \<and> ArrayShape F32 [4, 2, 3, 3] = ArrayShape F32 [1, 4, 6, 6] \<and>
        ArrayShape F32 [1, 4, 6, 6] = shape (?c ! 1))"
    unfolding shapes by (simp add: example_conv_def)
  have prep: "prepare ?p (ArrayShape F32 [1, 2, 8, 8]) (ArrayShape F32 [4, 2, 3, 3])
       (ArrayShape F32 [1, 4, 6, 6]) =
     ([ThenMemZero \<lparr>opaque = 0, mem_size = 512\<rparr> 512,
       ThenMemZero \<lparr>opaque = 512, mem_size = 288\<rparr> 288,
       ThenMemZero \<lparr>opaque = 800, mem_size = 576\<rparr> 576, BlockHostUntilDone],
      Done (Inr (\<lparr>opaque = 0, mem_size = 512\<rparr>, \<lparr>opaque = 512, mem_size = 288\<rparr>,
         \<lparr>opaque = 800, mem_size = 576\<rparr>)))"
    by code_simp
  have cands: "candidates ?p kForward (ArrayShape F32 [1, 2, 8, 8]) (ArrayShape F32 [1, 4, 6, 6])
      (convolution_dimension_numbers ?i) = Done [example_alg 0, example_alg 1, example_alg 5]"
    by code_simp
  have invalid: "\<forall>(a, t) \<in> set (trials_of ?p [example_alg 0, example_alg 1, example_alg 5]).
      \<not> valid_trial t"
    by code_simp
  have dflt: "\<not> is_valid (default_ProfileResult ?p)"
    by code_simp
  have name: "ToString ?i = ''conv''" by code_simp
  from all_algorithms_failed [OF instr ops roles prep cands invalid dflt]
  show ?thesis unfolding name by (simp add: example_conv_def)
qed

lemma example_prepare:
  "prepare (example_picker example_v6 run None) example_input_shape example_filter_shape
     example_output_shape =
   (example_init_f16, Done (Inr (example_input_buf, example_filter_buf, example_output_buf)))"
  by code_simp





lemma operand_request_failures:
  assumes types: "element_type input_shape = element_type filter_shape"
      "element_type input_shape = element_type output_shape"
  shows "(AllocateBytes (Allocate p) (ByteSizeOf p input_shape)
            (new_ScratchAllocator (stream_exec_device_ordinal p),
             case member_allocator p of Some a \<Rightarrow> a | None \<Rightarrow> se_allocator p) =
            Done (Inl st, sa1, m1) \<longrightarrow>
          PickBestAlgorithm p kind input_shape filter_shape output_shape win dnums instr =
            ([], Done (Inl st))) \<and>
         (AllocateBytes (Allocate p) (ByteSizeOf p input_shape)
            (new_ScratchAllocator (stream_exec_device_ordinal p),
             case member_allocator p of Some a \<Rightarrow> a | None \<Rightarrow> se_allocator p) =
            Done (Inr input_buf, sa1, m1) \<longrightarrow>
          AllocateBytes (Allocate p) (ByteSizeOf p filter_shape) (sa1, m1) =
            Done (Inl st, sa2, m2) \<longrightarrow>
          PickBestAlgorithm p kind input_shape filter_shape output_shape win dnums instr =
            ([], Done (Inl st))) \<and>
         (AllocateBytes (Allocate p) (ByteSizeOf p input_shape)
            (new_ScratchAllocator (stream_exec_device_ordinal p),
             case member_allocator p of Some a \<Rightarrow> a | None \<Rightarrow> se_allocator p) =
            Done (Inr input_buf, sa1, m1) \<longrightarrow>
          AllocateBytes (Allocate p) (ByteSizeOf p filter_shape) (sa1, m1) =
            Done (Inr filter_buf, sa2, m2) \<longrightarrow>
          AllocateBytes (Allocate p) (ByteSizeOf p output_shape) (sa2, m2) =
            Done (Inl st, sa3, m3) \<longrightarrow>
          PickBestAlgorithm p kind input_shape filter_shape output_shape win dnums instr =
            ([], Done (Inl st)))"
  using types
  by (simp add: PickBestAlgorithm_def prepare_def allocate_operands_def Let_def)

text \<open>
  C2 (amended). A single request of more than 4 GiB fails with a \<open>RESOURCE_EXHAUSTED\<close>
  error that carries the requested size and the limit, and leaves the allocator as it
  was; so no successful request exceeds 4 GiB. The cumulative size is not checked against
  the budget: after any sequence of requests it is at most 4 GiB for each buffer owned.
  A candidate trial that fails (as one whose scratch request failed does) leaves the loop
  state unchanged and the loop goes on; a failed request for one of the three operand
  buffers (the input buffer, or the filter buffer after the input buffer, or the output
  buffer after both) is returned as the error of the whole picking call, before any
  candidate runs.
\<close>

theorem AllocateBytes_budget:
  "(0 \<le> byte_size \<longrightarrow> byte_size > 2 ^ 32 \<longrightarrow>
      AllocateBytes alloc byte_size (sa, m) =
        Done (Inl (Status RESOURCE_EXHAUSTED (ExceedsMemoryLimit byte_size (2 ^ 32))), sa, m)) \<and>
   (AllocateBytes alloc byte_size (sa, m) = Done (Inr buf, sa', m') \<longrightarrow>
      0 \<le> byte_size \<and> byte_size \<le> 2 ^ 32) \<and>
   (AllocateBytesSeq alloc bs (new_ScratchAllocator ordinal, m) = Done (sa'', m'') \<longrightarrow>
      TotalAllocatedBytes sa'' \<le> 2 ^ 32 * int (length (allocated_buffers sa''))) \<and>
   (\<not> valid_trial t \<longrightarrow>
      trial_step cc crash rb istr (tr, s) (alg, t) = (tr @ [RunConvolution alg], Done s)) \<and>
   (element_type input_shape = element_type filter_shape \<longrightarrow>
    element_type input_shape = element_type output_shape \<longrightarrow>
    allocate_operands p input_shape filter_shape output_shape = Done (Inl st) \<longrightarrow>
      PickBestAlgorithm p kind input_shape filter_shape output_shape win dnums instr =
        ([], Done (Inl st))) \<and>
   (element_type input_shape = element_type filter_shape \<longrightarrow>
    element_type input_shape = element_type output_shape \<longrightarrow>
      (AllocateBytes (Allocate p) (ByteSizeOf p input_shape)
         (new_ScratchAllocator (stream_exec_device_ordinal p),
          case member_allocator p of Some a \<Rightarrow> a | None \<Rightarrow> se_allocator p) =
         Done (Inl st, sa1, m1) \<longrightarrow>
       PickBestAlgorithm p kind input_shape filter_shape output_shape win dnums instr =
         ([], Done (Inl st))) \<and>
      (AllocateBytes (Allocate p) (ByteSizeOf p input_shape)
         (new_ScratchAllocator (stream_exec_device_ordinal p),
          case member_allocator p of Some a \<Rightarrow> a | None \<Rightarrow> se_allocator p) =
         Done (Inr input_buf, sa1, m1) \<longrightarrow>
       AllocateBytes (Allocate p) (ByteSizeOf p filter_shape) (sa1, m1) =
         Done (Inl st, sa2, m2) \<longrightarrow>
       PickBestAlgorithm p kind input_shape filter_shape output_shape win dnums instr =
         ([], Done (Inl st))) \<and>
      (AllocateBytes (Allocate p) (ByteSizeOf p input_shape)
         (new_ScratchAllocator (stream_exec_device_ordinal p),
          case member_allocator p of Some a \<Rightarrow> a | None \<Rightarrow> se_allocator p) =
         Done (Inr input_buf, sa1, m1) \<longrightarrow>
       AllocateBytes (Allocate p) (ByteSizeOf p filter_shape) (sa1, m1) =
         Done (Inr filter_buf, sa2, m2) \<longrightarrow>
       AllocateBytes (Allocate p) (ByteSizeOf p output_shape) (sa2, m2) =
         Done (Inl st, sa3, m3) \<longrightarrow>
       PickBestAlgorithm p kind input_shape filter_shape output_shape win dnums instr =
         ([], Done (Inl st))))"
proof -
  have seq: "AllocateBytesSeq alloc bs (new_ScratchAllocator ordinal, m) = Done (sa'', m'') \<longrightarrow>
      TotalAllocatedBytes sa'' \<le> 2 ^ 32 * int (length (allocated_buffers sa''))"
    using AllocateBytesSeq_total [of alloc bs "new_ScratchAllocator ordinal" m sa'' m'']
    by (simp add: new_ScratchAllocator_def TotalAllocatedBytes_def)
  have pick: "element_type input_shape = element_type filter_shape \<longrightarrow>
    element_type input_shape = element_type output_shape \<longrightarrow>
    allocate_operands p input_shape filter_shape output_shape = Done (Inl st) \<longrightarrow>
      PickBestAlgorithm p kind input_shape filter_shape output_shape win dnums instr =
        ([], Done (Inl st))"
    by (simp add: PickBestAlgorithm_def prepare_def)
  have first: "(0 \<le> byte_size \<longrightarrow> byte_size > 2 ^ 32 \<longrightarrow>
      AllocateBytes alloc byte_size (sa, m) =
        Done (Inl (Status RESOURCE_EXHAUSTED (ExceedsMemoryLimit byte_size (2 ^ 32))), sa, m)) \<and>
   (AllocateBytes alloc byte_size (sa, m) = Done (Inr buf, sa', m') \<longrightarrow>
      0 \<le> byte_size \<and> byte_size \<le> 2 ^ 32) \<and>
   (\<not> valid_trial t \<longrightarrow>
      trial_step cc crash rb istr (tr, s) (alg, t) = (tr @ [RunConvolution alg], Done s))"
    using AllocateBytes_over_limit [of byte_size alloc sa m]
      AllocateBytes_success_bound [of alloc byte_size sa m buf sa' m']
      trial_step_invalid [of t cc crash rb istr tr s alg]
    by blast
  have operands: "element_type input_shape = element_type filter_shape \<longrightarrow>
    element_type input_shape = element_type output_shape \<longrightarrow>
      (AllocateBytes (Allocate p) (ByteSizeOf p input_shape)
         (new_ScratchAllocator (stream_exec_device_ordinal p),
          case member_allocator p of Some a \<Rightarrow> a | None \<Rightarrow> se_allocator p) =
         Done (Inl st, sa1, m1) \<longrightarrow>
       PickBestAlgorithm p kind input_shape filter_shape output_shape win dnums instr =
         ([], Done (Inl st))) \<and>
      (AllocateBytes (Allocate p) (ByteSizeOf p input_shape)
         (new_ScratchAllocator (stream_exec_device_ordinal p),
          case member_allocator p of Some a \<Rightarrow> a | None \<Rightarrow> se_allocator p) =
         Done (Inr input_buf, sa1, m1) \<longrightarrow>
       AllocateBytes (Allocate p) (ByteSizeOf p filter_shape) (sa1, m1) =
         Done (Inl st, sa2, m2) \<longrightarrow>
       PickBestAlgorithm p kind input_shape filter_shape output_shape win dnums instr =
         ([], Done (Inl st))) \<and>
      (AllocateBytes (Allocate p) (ByteSizeOf p input_shape)
         (new_ScratchAllocator (stream_exec_device_ordinal p),
          case member_allocator p of Some a \<Rightarrow> a | None \<Rightarrow> se_allocator p) =
         Done (Inr input_buf, sa1, m1) \<longrightarrow>
       AllocateBytes (Allocate p) (ByteSizeOf p filter_shape) (sa1, m1) =
         Done (Inr filter_buf, sa2, m2) \<longrightarrow>
       AllocateBytes (Allocate p) (ByteSizeOf p output_shape) (sa2, m2) =
         Done (Inl st, sa3, m3) \<longrightarrow>
       PickBestAlgorithm p kind input_shape filter_shape output_shape win dnums instr =
         ([], Done (Inl st)))"
    using operand_request_failures
      [of input_shape filter_shape output_shape p st sa1 m1 kind win dnums instr
          input_buf sa2 m2 filter_buf sa3 m3]
    by blast
  from first seq pick operands show ?thesis by blast
qed

theorem AllocateBytes_budget_witness:
  "AllocateBytes (bump_allocator (2 ^ 34)) (2 ^ 33) (new_ScratchAllocator 0, 0) =
     Done (Inl (Status RESOURCE_EXHAUSTED (ExceedsMemoryLimit (2 ^ 33) (2 ^ 32))),
           new_ScratchAllocator 0, 0) \<and>
   TotalAllocatedBytes
     \<lparr>device_ordinal = 0,
      allocated_buffers =
        [\<lparr>owned_opaque = 0, owned_size = 3221225472, owned_device_ordinal = 0\<rparr>,
         \<lparr>owned_opaque = 3221225472, owned_size = 3221225472, owned_device_ordinal = 0\<rparr>],
      total_allocated_bytes = 6442450944\<rparr> \<le> 2 ^ 32 * 2 \<and>
   AllocateBytes (bump_allocator 100) 40 (new_ScratchAllocator 0, 0) =
     Done (Inr \<lparr>opaque = 0, mem_size = 40\<rparr>,
           \<lparr>device_ordinal = 0,
            allocated_buffers = [\<lparr>owned_opaque = 0, owned_size = 40, owned_device_ordinal = 0\<rparr>],
            total_allocated_bytes = 40\<rparr>, 40) \<and>
   (40 :: int) \<le> 2 ^ 32 \<and>
   trial_step True False example_output_buf ''conv'' ([], initial_state
        (example_picker example_v6 example_run_failing None))
     (example_alg 0, example_run_failing 0 (example_alg 0)) =
     ([RunConvolution (example_alg 0)],
      Done (initial_state (example_picker example_v6 example_run_failing None))) \<and>
   PickBestAlgorithm (example_picker example_v6 example_run None) kForward
     example_huge_shape (ArrayShape F32 [4, 2, 3, 3]) (ArrayShape F32 [1, 4, 32766, 32766]) []
     example_dnums (example_conv F32 False) =
     ([], Done (Inl (Status RESOURCE_EXHAUSTED (ExceedsMemoryLimit (2 ^ 33) (2 ^ 32))))) \<and>
   AllocateBytes (Allocate (example_picker example_v6 example_run None))
     (ByteSizeOf (example_picker example_v6 example_run None) (ArrayShape F32 [1, 2, 8, 8]))
     (new_ScratchAllocator 0, 0) =
     Done (Inr \<lparr>opaque = 0, mem_size = 512\<rparr>,
           \<lparr>device_ordinal = 0,
            allocated_buffers = [\<lparr>owned_opaque = 0, owned_size = 512, owned_device_ordinal = 0\<rparr>],
            total_allocated_bytes = 512\<rparr>, 512) \<and>
   AllocateBytes (Allocate (example_picker example_v6 example_run None))
     (ByteSizeOf (example_picker example_v6 example_run None) example_huge_shape)
     (\<lparr>device_ordinal = 0,
       allocated_buffers = [\<lparr>owned_opaque = 0, owned_size = 512, owned_device_ordinal = 0\<rparr>],
       total_allocated_bytes = 512\<rparr>, 512) =
     Done (Inl (Status RESOURCE_EXHAUSTED (ExceedsMemoryLimit (2 ^ 33) (2 ^ 32))),
           \<lparr>device_ordinal = 0,
            allocated_buffers = [\<lparr>owned_opaque = 0, owned_size = 512, owned_device_ordinal = 0\<rparr>],
            total_allocated_bytes = 512\<rparr>, 512) \<and>
   PickBestAlgorithm (example_picker example_v6 example_run None) kForward
     (ArrayShape F32 [1, 2, 8, 8]) example_huge_shape (ArrayShape F32 [1, 4, 6, 6]) []
     example_dnums (example_conv F32 False) =
     ([], Done (Inl (Status RESOURCE_EXHAUSTED (ExceedsMemoryLimit (2 ^ 33) (2 ^ 32))))) \<and>
   AllocateBytes (Allocate (example_picker example_v6 example_run None))
     (ByteSizeOf (example_picker example_v6 example_run None) (ArrayShape F32 [4, 2, 3, 3]))
     (\<lparr>device_ordinal = 0,
       allocated_buffers = [\<lparr>owned_opaque = 0, owned_size = 512, owned_device_ordinal = 0\<rparr>],
       total_allocated_bytes = 512\<rparr>, 512) =
     Done (Inr \<lparr>opaque = 512, mem_size = 288\<rparr>,
           \<lparr>device_ordinal = 0,
            allocated_buffers =
              [\<lparr>owned_opaque = 0, owned_size = 512, owned_device_ordinal = 0\<rparr>,
               \<lparr>owned_opaque = 512, owned_size = 288, owned_device_ordinal = 0\<rparr>],
            total_allocated_bytes = 800\<rparr>, 800) \<and>
   AllocateBytes (Allocate (example_picker example_v6 example_run None))
     (ByteSizeOf (example_picker example_v6 example_run None) example_huge_shape)
     (\<lparr>device_ordinal = 0,
       allocated_buffers =
         [\<lparr>owned_opaque = 0, owned_size = 512, owned_device_ordinal = 0\<rparr>,
          \<lparr>owned_opaque = 512, owned_size = 288, owned_device_ordinal = 0\<rparr>],
       total_allocated_bytes = 800\<rparr>, 800) =
     Done (Inl (Status RESOURCE_EXHAUSTED (ExceedsMemoryLimit (2 ^ 33) (2 ^ 32))),
           \<lparr>device_ordinal = 0,
            allocated_buffers =
              [\<lparr>owned_opaque = 0, owned_size = 512, owned_device_ordinal = 0\<rparr>,
               \<lparr>owned_opaque = 512, owned_size = 288, owned_device_ordinal = 0\<rparr>],
            total_allocated_bytes = 800\<rparr>, 800) \<and>
   PickBestAlgorithm (example_picker example_v6 example_run None) kForward
     (ArrayShape F32 [1, 2, 8, 8]) (ArrayShape F32 [4, 2, 3, 3]) example_huge_shape []
     example_dnums (example_conv F32 False) =
     ([], Done (Inl (Status RESOURCE_EXHAUSTED (ExceedsMemoryLimit (2 ^ 33) (2 ^ 32)))))"
proof -
  let ?sa = "\<lparr>device_ordinal = 0,
      allocated_buffers =
        [\<lparr>owned_opaque = 0, owned_size = 3221225472, owned_device_ordinal = 0\<rparr>,
         \<lparr>owned_opaque = 3221225472, owned_size = 3221225472, owned_device_ordinal = 0\<rparr>],
      total_allocated_bytes = 6442450944\<rparr>"
  let ?p = "example_picker example_v6 example_run None :: (int, int) Picker"
  let ?st = "Status RESOURCE_EXHAUSTED (ExceedsMemoryLimit (2 ^ 33) (2 ^ 32))"
  let ?in_shape = "ArrayShape F32 [1, 2, 8, 8]"
  let ?filter_shape = "ArrayShape F32 [4, 2, 3, 3]"
  let ?sa1 = "\<lparr>device_ordinal = 0,
      allocated_buffers = [\<lparr>owned_opaque = 0, owned_size = 512, owned_device_ordinal = 0\<rparr>],
      total_allocated_bytes = 512\<rparr>"
  let ?sa2 = "\<lparr>device_ordinal = 0,
      allocated_buffers =
        [\<lparr>owned_opaque = 0, owned_size = 512, owned_device_ordinal = 0\<rparr>,
         \<lparr>owned_opaque = 512, owned_size = 288, owned_device_ordinal = 0\<rparr>],
      total_allocated_bytes = 800\<rparr>"
  let ?fresh = "(new_ScratchAllocator (stream_exec_device_ordinal ?p),
          case member_allocator ?p of Some a \<Rightarrow> a | None \<Rightarrow> se_allocator ?p)"
  have big: "(0::int) \<le> 2 ^ 33" "(2::int) ^ 33 > 2 ^ 32" by simp_all
  have seq: "AllocateBytesSeq (bump_allocator (2 ^ 34)) [3 * 2 ^ 30, 3 * 2 ^ 30]
      (new_ScratchAllocator 0, 0) = Done (?sa, 6442450944)"
    by code_simp
  have invalid: "\<not> valid_trial (example_run_failing 0 (example_alg 0))" by code_simp
  have types: "element_type example_huge_shape = element_type ?filter_shape"
    "element_type example_huge_shape = element_type (ArrayShape F32 [1, 4, 32766, 32766])"
    "element_type ?in_shape = element_type example_huge_shape"
    "element_type ?in_shape = element_type (ArrayShape F32 [1, 4, 6, 6])"
    "element_type ?in_shape = element_type ?filter_shape"
    by code_simp+
  have small: "AllocateBytes (bump_allocator 100) 40 (new_ScratchAllocator 0, 0) =
     Done (Inr \<lparr>opaque = 0, mem_size = 40\<rparr>,
           \<lparr>device_ordinal = 0,
            allocated_buffers = [\<lparr>owned_opaque = 0, owned_size = 40, owned_device_ordinal = 0\<rparr>],
            total_allocated_bytes = 40\<rparr>, 40)"
    by code_simp
  have alloc: "allocate_operands ?p example_huge_shape ?filter_shape
      (ArrayShape F32 [1, 4, 32766, 32766]) = Done (Inl ?st)"
    by code_simp
  have fresh: "?fresh = (new_ScratchAllocator 0, 0)" by code_simp
  have input_ok: "AllocateBytes (Allocate ?p) (ByteSizeOf ?p ?in_shape) ?fresh =
      Done (Inr \<lparr>opaque = 0, mem_size = 512\<rparr>, ?sa1, 512)"
    by code_simp
  have filter_fails: "AllocateBytes (Allocate ?p) (ByteSizeOf ?p example_huge_shape) (?sa1, 512) =
      Done (Inl ?st, ?sa1, 512)"
    by code_simp
  have filter_ok: "AllocateBytes (Allocate ?p) (ByteSizeOf ?p ?filter_shape) (?sa1, 512) =
      Done (Inr \<lparr>opaque = 512, mem_size = 288\<rparr>, ?sa2, 800)"
    by code_simp
  have output_fails: "AllocateBytes (Allocate ?p) (ByteSizeOf ?p example_huge_shape) (?sa2, 800) =
      Done (Inl ?st, ?sa2, 800)"
    by code_simp
  have first: "AllocateBytes (bump_allocator (2 ^ 34)) (2 ^ 33) (new_ScratchAllocator 0, 0) =
       Done (Inl ?st, new_ScratchAllocator 0, 0) \<and>
     TotalAllocatedBytes ?sa \<le> 2 ^ 32 * 2 \<and>
     (40 :: int) \<le> 2 ^ 32 \<and>
     trial_step True False example_output_buf ''conv'' ([], initial_state
          (example_picker example_v6 example_run_failing None))
       (example_alg 0, example_run_failing 0 (example_alg 0)) =
       ([RunConvolution (example_alg 0)],
        Done (initial_state (example_picker example_v6 example_run_failing None))) \<and>
     PickBestAlgorithm ?p kForward example_huge_shape ?filter_shape
       (ArrayShape F32 [1, 4, 32766, 32766]) [] example_dnums (example_conv F32 False) =
       ([], Done (Inl ?st))"
    using AllocateBytes_budget [of "2 ^ 33" "bump_allocator (2 ^ 34)" "new_ScratchAllocator 0" 0
        _ _ _ "[3 * 2 ^ 30, 3 * 2 ^ 30]" 0 ?sa 6442450944 "example_run_failing 0 (example_alg 0)"
        True False example_output_buf "''conv''" "[]"
        "initial_state (example_picker example_v6 example_run_failing None)" "example_alg 0"
        example_huge_shape ?filter_shape "ArrayShape F32 [1, 4, 32766, 32766]"
        ?p ?st kForward "[]" example_dnums "example_conv F32 False"]
      AllocateBytes_budget [of 40 "bump_allocator 100" "new_ScratchAllocator 0" 0
        "\<lparr>opaque = 0, mem_size = 40\<rparr>"
        "\<lparr>device_ordinal = 0,
              allocated_buffers = [\<lparr>owned_opaque = 0, owned_size = 40, owned_device_ordinal = 0\<rparr>],
              total_allocated_bytes = 40\<rparr>" 40, THEN conjunct2, THEN conjunct1]
      big seq invalid types alloc small
    by simp
  have filter_case: "PickBestAlgorithm ?p kForward ?in_shape example_huge_shape
       (ArrayShape F32 [1, 4, 6, 6]) [] example_dnums (example_conv F32 False) =
       ([], Done (Inl ?st))"
    using AllocateBytes_budget [of _ _ _ _ _ _ _ _ _ _ _ _ _ _ _ _ _ _ _
        ?in_shape example_huge_shape "ArrayShape F32 [1, 4, 6, 6]"
        ?p ?st kForward "[]" example_dnums "example_conv F32 False"
        ?sa1 512 "\<lparr>opaque = 0, mem_size = 512\<rparr>" ?sa1 512,
        THEN conjunct2, THEN conjunct2, THEN conjunct2, THEN conjunct2, THEN conjunct2]
      types input_ok filter_fails
    by simp
  have output_case: "PickBestAlgorithm ?p kForward ?in_shape ?filter_shape
       example_huge_shape [] example_dnums (example_conv F32 False) =
       ([], Done (Inl ?st))"
    using AllocateBytes_budget [of _ _ _ _ _ _ _ _ _ _ _ _ _ _ _ _ _ _ _
        ?in_shape ?filter_shape example_huge_shape
        ?p ?st kForward "[]" example_dnums "example_conv F32 False"
        ?sa1 512 "\<lparr>opaque = 0, mem_size = 512\<rparr>" ?sa2 800
        "\<lparr>opaque = 512, mem_size = 288\<rparr>" ?sa2 800,
        THEN conjunct2, THEN conjunct2, THEN conjunct2, THEN conjunct2, THEN conjunct2]
      types input_ok filter_ok output_fails
    by simp
  from first small fresh input_ok filter_fails filter_ok output_fails filter_case output_case
  show ?thesis by simp
qed

text \<open>
  C2 as stated fails twice: two requests of 3 GiB both succeed and bring the cumulative
  size to 6 GiB, above the budget; and a request over the budget for the input buffer
  (8 GiB) ends the whole picking call with that error, before any candidate runs.
\<close>

theorem cumulative_size_exceeds_budget:
  "AllocateBytesSeq (bump_allocator (2 ^ 34)) [3 * 2 ^ 30, 3 * 2 ^ 30]
      (new_ScratchAllocator 0, 0) =
     Done (\<lparr>device_ordinal = 0,
            allocated_buffers =
              [\<lparr>owned_opaque = 0, owned_size = 3221225472, owned_device_ordinal = 0\<rparr>,
               \<lparr>owned_opaque = 3221225472, owned_size = 3221225472, owned_device_ordinal = 0\<rparr>],
            total_allocated_bytes = 6442450944\<rparr>, 6442450944) \<and>
   (2 ^ 32 :: int) < 6442450944 \<and>
   PickBestAlgorithm (example_picker example_v6 example_run None) kForward
     example_huge_shape (ArrayShape F32 [4, 2, 3, 3]) (ArrayShape F32 [1, 4, 32766, 32766]) []
     example_dnums (example_conv F32 False) =
     ([], Done (Inl (Status RESOURCE_EXHAUSTED (ExceedsMemoryLimit 8589934592 4294967296))))"
  by code_simp

text \<open>
  C3 at a shape where the code and the policy part: with a library of major version 6, an
  input of \<open>2 ^ 31\<close> positions and \<open>2 ^ 31\<close> output features, the size of the policy is
  \<open>2 ^ 64\<close>, which is not below \<open>2 ^ 31\<close>; the code multiplies by \<open>sizeof(float)\<close> in
  unsigned 64-bit arithmetic, gets 0, and includes the algorithm.
\<close>

theorem winograd_size_wraps:
  "ShouldIncludeWinogradNonfusedAlgo example_long_input_shape example_long_output_shape
     example_dnums_1d example_v6 = Some True \<and>
   spec_total_size 1 1 2147483648 2147483648 1 = 2 ^ 64 \<and>
   spec_winograd_eligible 6 1 1 2147483648 2147483648 1 = False"
  by code_simp

text \<open>
  Where the size of the policy fits the signed 64-bit range the code computes the policy.
\<close>

theorem winograd_policy_in_range:
  assumes batch: "at_index (dimensions input_shape) (input_batch_dimension dnums) = Some batch"
    and in_depths: "at_index (dimensions input_shape) (input_feature_dimension dnums) = Some in_depths"
    and rows: "at_index (input_spatial_dimensions dnums) 0 = Some r"
      "at_index (dimensions input_shape) r = Some in_rows"
    and cols: "if length (input_spatial_dimensions dnums) = 1 then in_cols = 1
               else \<exists>c. at_index (input_spatial_dimensions dnums) 1 = Some c \<and>
                        at_index (dimensions input_shape) c = Some in_cols"
    and out_depths: "at_index (dimensions output_shape) (output_feature_dimension dnums) = Some out_depths"
    and range: "- (2 ^ 63) \<le> spec_total_size batch in_depths out_depths in_rows in_cols"
      "spec_total_size batch in_depths out_depths in_rows in_cols < 2 ^ 63"
  shows "ShouldIncludeWinogradNonfusedAlgo input_shape output_shape dnums (Inr v) =
         Some (spec_winograd_eligible (major_version v) batch in_depths out_depths in_rows in_cols)"
proof -
  have comm: "CeilOfRatio batch 16 * max in_depths out_depths * in_cols * in_rows * sizeof_float =
      spec_total_size batch in_depths out_depths in_rows in_cols"
    by (simp add: spec_total_size_def sizeof_float_def mult.commute mult.left_commute)
  have exact: "to_int64 (spec_total_size batch in_depths out_depths in_rows in_cols) =
      spec_total_size batch in_depths out_depths in_rows in_cols"
    unfolding to_int64_def using range by (intro signed_take_bit_int_eq_self) simp_all
  have exact': "to_int64 (CeilOfRatio batch 16 * max in_depths out_depths * in_cols * in_rows * 4) =
      CeilOfRatio batch 16 * max in_depths out_depths * in_rows * in_cols * 4"
    using exact by (simp add: spec_total_size_def ac_simps)
  show ?thesis
  proof (cases "length (input_spatial_dimensions dnums) = 1")
    case True
    with cols have one: "in_cols = 1" by simp
    from exact' have "to_int64 (CeilOfRatio batch 16 * max in_depths out_depths * in_rows * 4) =
      CeilOfRatio batch 16 * max in_depths out_depths * in_rows * 4"
      unfolding one by simp
    with True show ?thesis
      by (simp add: ShouldIncludeWinogradNonfusedAlgo_def batch in_depths rows out_depths
            one sizeof_float_def spec_total_size_def spec_winograd_eligible_def)
  next
    case False
    with cols obtain c where "at_index (input_spatial_dimensions dnums) 1 = Some c"
      "at_index (dimensions input_shape) c = Some in_cols" by auto
    with False exact' show ?thesis
      by (simp add: ShouldIncludeWinogradNonfusedAlgo_def batch in_depths rows out_depths
            sizeof_float_def spec_total_size_def spec_winograd_eligible_def)
  qed
qed

theorem winograd_policy_in_range_witness:
  "ShouldIncludeWinogradNonfusedAlgo example_input_shape example_output_shape example_dnums
     example_v6 = Some (spec_winograd_eligible 6 1 2 4 8 8) \<and>
   spec_total_size 1 2 4 8 8 = 1024"
proof -
  have lookups:
    "at_index (dimensions example_input_shape) (input_batch_dimension example_dnums) = Some 1"
    "at_index (dimensions example_input_shape) (input_feature_dimension example_dnums) = Some 2"
    "at_index (input_spatial_dimensions example_dnums) 0 = Some 2"
    "at_index (dimensions example_input_shape) 2 = Some 8"
    "at_index (dimensions example_output_shape) (output_feature_dimension example_dnums) = Some 4"
    by code_simp+
  have cols: "if length (input_spatial_dimensions example_dnums) = 1 then (8::int) = 1
      else \<exists>c. at_index (input_spatial_dimensions example_dnums) 1 = Some c \<and>
               at_index (dimensions example_input_shape) c = Some 8"
    by (simp add: example_dnums_def example_input_shape_def at_index_def)
  have size: "spec_total_size 1 2 4 8 8 = 1024" by code_simp
  have range: "- (2 ^ 63) \<le> spec_total_size 1 2 4 8 8" "spec_total_size 1 2 4 8 8 < 2 ^ 63"
    unfolding size by simp_all
  from winograd_policy_in_range [OF lookups(1,2,3,4) cols lookups(5) range,
      of "\<lparr>major_version = 6, minor_version = 0, patch_version = 0\<rparr>"] size
  show ?thesis by (simp add: example_v6_def)
qed

text \<open>
  With a library of major version 7 or newer the algorithm is included whatever the
  shapes are.
\<close>

theorem winograd_included_from_version_7:
  "7 \<le> major_version v \<Longrightarrow>
   ShouldIncludeWinogradNonfusedAlgo input_shape output_shape dnums (Inr v) = Some True"
  by (simp add: ShouldIncludeWinogradNonfusedAlgo_def)

theorem winograd_included_from_version_7_witness:
  "ShouldIncludeWinogradNonfusedAlgo example_long_input_shape example_long_output_shape
     example_dnums_1d (Inr \<lparr>major_version = 7, minor_version = 0, patch_version = 0\<rparr>) =
   Some True"
  using winograd_included_from_version_7
    [of "\<lparr>major_version = 7, minor_version = 0, patch_version = 0\<rparr>"
        example_long_input_shape example_long_output_shape example_dnums_1d]
  by simp




text \<open>
  C6. In every picking call the result buffer is selected from the three operand buffers
  by the convolution kind alone: forward selects the output buffer, backward-input the
  input buffer and backward-filter the filter buffer; every call to the comparator in the
  trace of the picking call is on that buffer.
\<close>

theorem result_buf_by_kind:
  assumes prep: "prepare p input_shape filter_shape output_shape =
             (tr, Done (Inr (input_buf, filter_buf, output_buf)))"
    and pick: "PickBestAlgorithm p kind input_shape filter_shape output_shape win dnums instr
             = (tr', res)"
  shows "result_buf kForward input_buf filter_buf output_buf = output_buf \<and>
         result_buf kBackwardInput input_buf filter_buf output_buf = input_buf \<and>
         result_buf kBackwardFilter input_buf filter_buf output_buf = filter_buf \<and>
         (\<forall>e \<in> set tr'. uses_buffer (result_buf kind input_buf filter_buf output_buf) e)"
proof -
  let ?rb = "result_buf kind input_buf filter_buf output_buf"
  note base = prepare_uses [OF prep, of ?rb]
  have "\<forall>e \<in> set tr'. uses_buffer ?rb e"
  proof (cases "candidates p kind input_shape output_shape dnums")
    case (CheckFailure msg)
    with prep pick base show ?thesis by (simp add: PickBestAlgorithm_def)
  next
    case (Done algorithms)
    obtain tr2 x where loop: "trials_loop (element_type input_shape = F16)
             (xla_gpu_crash_on_verification_failures instr) ?rb (ToString instr)
             (tr, initial_state p) (trials_of p algorithms) = (tr2, x)"
      by (cases "trials_loop (element_type input_shape = F16)
             (xla_gpu_crash_on_verification_failures instr) ?rb (ToString instr)
             (tr, initial_state p) (trials_of p algorithms)")
    have init: "\<forall>c. comparator (initial_state p) = Some c \<longrightarrow> c = F16BufferComparator ?rb"
      by (simp add: initial_state_def)
    from pick loop have "tr' = tr2"
      unfolding PickBestAlgorithm_reaches_loop [OF prep Done]
      by (cases x) auto
    with trials_loop_uses [OF loop base init] show ?thesis by simp
  qed
  then show ?thesis by simp
qed

theorem result_buf_by_kind_witness:
  "result_buf kForward example_input_buf example_filter_buf example_output_buf =
     example_output_buf \<and>
   list_all (uses_buffer example_output_buf)
     (fst (PickBestAlgorithm (example_picker example_v6 example_run None) kForward
             example_input_shape example_filter_shape example_output_shape [] example_dnums
             (example_conv F16 False)))"
proof -
  let ?pick = "PickBestAlgorithm (example_picker example_v6 example_run None) kForward
             example_input_shape example_filter_shape example_output_shape [] example_dnums
             (example_conv F16 False)"
  have pick: "?pick = (fst ?pick, snd ?pick)" by simp
  from result_buf_by_kind [OF example_prepare pick]
  show ?thesis by (simp add: list_all_iff)
qed

text \<open>
  C8. Before any candidate trial runs the three operand buffers are initialised as a
  function of the element type: for 16-bit floats each buffer is filled with the constant
  pattern \<open>0x2E66\<close> (the half-precision 0.1), by a 32-bit memset of \<open>0x2E662E66\<close> over
  the whole words and a copy over the bytes left over; otherwise each buffer is
  zero-filled. In both cases the call waits for the stream (\<open>BlockHostUntilDone\<close>, which
  returned OK) before the first trial: a trace that contains a trial starts with the
  initialisation and the wait.
\<close>

theorem buffers_initialized_before_trials:
  assumes pick: "PickBestAlgorithm p kind input_shape filter_shape output_shape win dnums instr
             = (tr', res)"
    and trial: "RunConvolution a \<in> set tr'"
  shows "\<exists>input_buf filter_buf output_buf rest.
      allocate_operands p input_shape filter_shape output_shape =
        Done (Inr (input_buf, filter_buf, output_buf)) \<and>
      BlockHostUntilDone_status p = None \<and>
      tr' =
        (if element_type input_shape = F16 then
           [ThenMemset32 input_buf 0x2E662E66 (mem_size input_buf div 4 * 4),
            ThenMemcpy \<lparr>opaque = opaque input_buf + mem_size input_buf div 4 * 4,
                        mem_size = mem_size input_buf mod 4\<rparr> [0x2E66, 0x2E66]
              (mem_size input_buf mod 4),
            ThenMemset32 filter_buf 0x2E662E66 (mem_size filter_buf div 4 * 4),
            ThenMemcpy \<lparr>opaque = opaque filter_buf + mem_size filter_buf div 4 * 4,
                        mem_size = mem_size filter_buf mod 4\<rparr> [0x2E66, 0x2E66]
              (mem_size filter_buf mod 4),
            ThenMemset32 output_buf 0x2E662E66 (mem_size output_buf div 4 * 4),
            ThenMemcpy \<lparr>opaque = opaque output_buf + mem_size output_buf div 4 * 4,
                        mem_size = mem_size output_buf mod 4\<rparr> [0x2E66, 0x2E66]
              (mem_size output_buf mod 4)]
         else
           [ThenMemZero input_buf (mem_size input_buf),
            ThenMemZero filter_buf (mem_size filter_buf),
            ThenMemZero output_buf (mem_size output_buf)])
        @ [BlockHostUntilDone] @ rest"
proof -
  obtain tr r where prep: "prepare p input_shape filter_shape output_shape = (tr, r)"
    by (cases "prepare p input_shape filter_shape output_shape")
  note no_trial = prepare_no_trial [OF prep, of a]
  have "\<exists>bufs. r = Done (Inr bufs)"
  proof (rule ccontr)
    assume "\<not> (\<exists>bufs. r = Done (Inr bufs))"
    with pick prep have "tr' = tr"
      by (auto simp: PickBestAlgorithm_def split: checked.splits sum.splits)
    with trial no_trial show False by simp
  qed
  then obtain input_buf filter_buf output_buf where
    r: "r = Done (Inr (input_buf, filter_buf, output_buf))"
    by (metis prod_cases3)
  note prep' = prep [unfolded r]
  from prepare_Done [OF prep'] obtain init where
    alloc: "allocate_operands p input_shape filter_shape output_shape =
        Done (Inr (input_buf, filter_buf, output_buf))" and
    block: "BlockHostUntilDone_status p = None" and
    init: "initialize_buffers (element_type input_shape = F16)
                    input_buf filter_buf output_buf = Done init" and
    tr: "tr = init @ [BlockHostUntilDone]"
    by blast
  have "\<exists>rest. tr' = tr @ rest"
  proof (cases "candidates p kind input_shape output_shape dnums")
    case (CheckFailure msg)
    with prep' pick show ?thesis by (simp add: PickBestAlgorithm_def)
  next
    case (Done algorithms)
    obtain tr2 x where loop: "trials_loop (element_type input_shape = F16)
             (xla_gpu_crash_on_verification_failures instr)
             (result_buf kind input_buf filter_buf output_buf) (ToString instr)
             (tr, initial_state p) (trials_of p algorithms) = (tr2, x)"
      by (cases "trials_loop (element_type input_shape = F16)
             (xla_gpu_crash_on_verification_failures instr)
             (result_buf kind input_buf filter_buf output_buf) (ToString instr)
             (tr, initial_state p) (trials_of p algorithms)")
    from pick loop have "tr' = tr2"
      unfolding PickBestAlgorithm_reaches_loop [OF prep' Done]
      by (cases x) auto
    with trials_loop_trace [OF loop] show ?thesis by simp
  qed
  then obtain rest where rest: "tr' = tr @ rest" by blast
  from initialize_buffers_Done [OF init] rest tr alloc block
  show ?thesis
    by (intro exI [of _ input_buf] exI [of _ filter_buf] exI [of _ output_buf] exI [of _ rest])
       (simp add: bits_def halfs_def kBroadcastedConstant_half_def)
qed

theorem buffers_initialized_before_trials_witness:
  "\<exists>input_buf filter_buf output_buf rest.
      allocate_operands (example_picker example_v6 example_run None) example_input_shape
        example_filter_shape example_output_shape =
        Done (Inr (input_buf, filter_buf, output_buf)) \<and>
      BlockHostUntilDone_status (example_picker example_v6 example_run None) = None \<and>
      fst (PickBestAlgorithm (example_picker example_v6 example_run None) kForward
             example_input_shape example_filter_shape example_output_shape [] example_dnums
             (example_conv F16 False)) =
        (if element_type example_input_shape = F16 then
           [ThenMemset32 input_buf 0x2E662E66 (mem_size input_buf div 4 * 4),
            ThenMemcpy \<lparr>opaque = opaque input_buf + mem_size input_buf div 4 * 4,
                        mem_size = mem_size input_buf mod 4\<rparr> [0x2E66, 0x2E66]
              (mem_size input_buf mod 4),
            ThenMemset32 filter_buf 0x2E662E66 (mem_size filter_buf div 4 * 4),
            ThenMemcpy \<lparr>opaque = opaque filter_buf + mem_size filter_buf div 4 * 4,
                        mem_size = mem_size filter_buf mod 4\<rparr> [0x2E66, 0x2E66]
              (mem_size filter_buf mod 4),
            ThenMemset32 output_buf 0x2E662E66 (mem_size output_buf div 4 * 4),
            ThenMemcpy \<lparr>opaque = opaque output_buf + mem_size output_buf div 4 * 4,
                        mem_size = mem_size output_buf mod 4\<rparr> [0x2E66, 0x2E66]
              (mem_size output_buf mod 4)]
         else
           [ThenMemZero input_buf (mem_size input_buf),
            ThenMemZero filter_buf (mem_size filter_buf),
            ThenMemZero output_buf (mem_size output_buf)])
        @ [BlockHostUntilDone] @ rest"
proof -
  let ?pick = "PickBestAlgorithm (example_picker example_v6 example_run None) kForward
             example_input_shape example_filter_shape example_output_shape [] example_dnums
             (example_conv F16 False)"
  have pick: "?pick = (fst ?pick, snd ?pick)" by simp
  have trial: "RunConvolution (example_alg 0) \<in> set (fst ?pick)" by code_simp
  from buffers_initialized_before_trials [OF pick trial] show ?thesis .
qed

lemma ShouldInclude_query_failed:
  "major_version v < 7 \<Longrightarrow>
   ShouldIncludeWinogradNonfusedAlgo input_shape output_shape dnums (Inl st) =
   ShouldIncludeWinogradNonfusedAlgo input_shape output_shape dnums (Inr v)"
  by (simp add: ShouldIncludeWinogradNonfusedAlgo_def)

text \<open>
  C9 (amended). A failure of the device-library version query is neither fatal nor
  propagated: \<open>ShouldIncludeWinogradNonfusedAlgo\<close> then applies the size check on the
  shapes, and the whole picking call behaves exactly as it does with a library whose major
  version is below 7.
\<close>

theorem version_query_failure_falls_back:
  fixes p :: "('m, 't::linorder) Picker"
  assumes "major_version v < 7"
  shows "ShouldIncludeWinogradNonfusedAlgo input_shape output_shape dnums (Inl st) =
           ShouldIncludeWinogradNonfusedAlgo input_shape output_shape dnums (Inr v) \<and>
         PickBestAlgorithm (p\<lparr>GetVersion := Inl st\<rparr>) kind input_shape filter_shape output_shape
             win dnums instr =
           PickBestAlgorithm (p\<lparr>GetVersion := Inr v\<rparr>) kind input_shape filter_shape output_shape
             win dnums instr"
proof -
  note eq = ShouldInclude_query_failed [OF assms, of input_shape output_shape dnums st]
  have prep: "prepare (p\<lparr>GetVersion := Inl st\<rparr>) input_shape filter_shape output_shape =
      prepare (p\<lparr>GetVersion := Inr v\<rparr>) input_shape filter_shape output_shape"
    by (simp add: prepare_def allocate_operands_def
          cong: checked.case_cong sum.case_cong prod.case_cong option.case_cong if_cong)
  have cands: "candidates (p\<lparr>GetVersion := Inl st\<rparr>) kind input_shape output_shape dnums =
      candidates (p\<lparr>GetVersion := Inr v\<rparr>) kind input_shape output_shape dnums"
    by (cases kind) (simp_all add: candidates_def eq GetAlgorithms_def cong: option.case_cong)
  have trials: "\<And>algs. trials_of (p\<lparr>GetVersion := Inl st\<rparr>) algs = trials_of (p\<lparr>GetVersion := Inr v\<rparr>) algs"
    by (simp add: trials_of_def)
  have init: "initial_state (p\<lparr>GetVersion := Inl st\<rparr>) = initial_state (p\<lparr>GetVersion := Inr v\<rparr>)"
    by (simp add: initial_state_def)
  show ?thesis
    unfolding PickBestAlgorithm_def prep cands trials init by (simp add: eq)
qed


theorem version_query_failure_falls_back_witness:
  "ShouldIncludeWinogradNonfusedAlgo example_input_shape example_output_shape example_dnums
     example_query_failed =
   ShouldIncludeWinogradNonfusedAlgo example_input_shape example_output_shape example_dnums
     example_v6 \<and>
   PickBestAlgorithm (example_picker example_query_failed example_run None) kForward
     example_input_shape example_filter_shape example_output_shape [] example_dnums
     (example_conv F16 False) =
   PickBestAlgorithm (example_picker example_v6 example_run None) kForward
     example_input_shape example_filter_shape example_output_shape [] example_dnums
     (example_conv F16 False)"
proof -
  have old: "major_version \<lparr>major_version = 6, minor_version = 0, patch_version = 0\<rparr> < 7"
    by simp
  have failed: "(example_picker example_v6 example_run None)
        \<lparr>GetVersion := Inl (Status INTERNAL (Text ''cuDNN version query failed''))\<rparr> =
      example_picker example_query_failed example_run None"
    by (simp add: example_picker_def example_query_failed_def)
  have v6: "(example_picker example_v6 example_run None)
        \<lparr>GetVersion := Inr \<lparr>major_version = 6, minor_version = 0, patch_version = 0\<rparr>\<rparr> =
      example_picker example_v6 example_run None"
    by (simp add: example_picker_def example_v6_def)
  from version_query_failure_falls_back [OF old,
      of example_input_shape example_output_shape example_dnums
         "Status INTERNAL (Text ''cuDNN version query failed'')"
         "example_picker example_v6 example_run None" kForward example_filter_shape "[]"
         "example_conv F16 False"]
  show ?thesis unfolding failed v6 by (simp add: example_query_failed_def example_v6_def)
qed

text \<open>
  C9 as stated fails: with a version query that returns an error the picking call goes on
  to run its candidates and returns a pick.
\<close>

theorem picking_proceeds_after_failed_version_query:
  "GetVersion (example_picker example_query_failed example_run None) =
     Inl (Status INTERNAL (Text ''cuDNN version query failed'')) \<and>
   ShouldIncludeWinogradNonfusedAlgo example_input_shape example_output_shape example_dnums
     example_query_failed = Some True \<and>
   snd (PickBestAlgorithm (example_picker example_query_failed example_run None) kForward
          example_input_shape example_filter_shape example_output_shape [] example_dnums
          (example_conv F16 False)) = Done (Inr (1, False, 0))"
  by code_simp

lemma replace_with_pick_unfold:
  assumes "set_backend_config_status p = None"
  shows "replace_with_pick p computation instr_id instr conv_result_shape operand0 operand1
           (alg_id, tensor_ops, scratch_bytes) =
         (let flag = xla_gpu_crash_on_verification_failures instr;
              new_call = (CreateCustomCall
                  (MakeTupleShape [conv_result_shape, MakeShape U8 [scratch_bytes]])
                  [operand0, operand1] (custom_call_target instr) flag)
                \<lparr>window := window instr,
                 convolution_dimension_numbers := convolution_dimension_numbers instr,
                 backend_config := Some \<lparr>config_algorithm = alg_id,
                                         config_tensor_ops_enabled = tensor_ops\<rparr>\<rparr>;
              gte = CreateGetTupleElement conv_result_shape (length computation) 0 flag;
              empty = CreateConstant_empty_u8 flag;
              new_tuple = new_instruction kTuple
                 (MakeTupleShape [conv_result_shape, MakeShape U8 [0]])
                 [length computation + 1, length computation + 2] flag;
              c7 = computation @ [new_call, gte, empty, new_tuple]
          in case ReplaceInstruction p c7 instr_id (length computation + 3) of
               Inl st \<Rightarrow> (Inl st, c7)
             | Inr c8 \<Rightarrow> (Inr True, c8))"
  using assms
  by (simp add: replace_with_pick_def AddInstruction_def Let_def nth_append CreateTuple_def
        CreateGetTupleElement_def CreateConstant_empty_u8_def new_instruction_def
        numeral_3_eq_3 numeral_2_eq_2 cong: sum.case_cong)


lemma replace_with_pick_config_error:
  assumes "set_backend_config_status p = Some st"
  shows "replace_with_pick p computation instr_id instr conv_result_shape operand0 operand1
           (alg_id, tensor_ops, scratch_bytes) =
         (Inl st, computation @
            [(CreateCustomCall
                (MakeTupleShape [conv_result_shape, MakeShape U8 [scratch_bytes]])
                [operand0, operand1] (custom_call_target instr)
                (xla_gpu_crash_on_verification_failures instr))
               \<lparr>window := window instr,
                convolution_dimension_numbers := convolution_dimension_numbers instr\<rparr>])"
  using assms
  by (simp add: replace_with_pick_def AddInstruction_def Let_def nth_append)

text \<open>
  C7 (amended). On a successful pick the rewriter adds a replacement custom call whose
  shape is the tuple of the original convolution result shape and a \<open>u8\<close> region of the
  winning scratch byte count, and which has the window and the dimension numbers of the
  original. When \<open>set_backend_config\<close> returns an error, \<open>RunOnInstruction\<close> returns that
  error; the new call, without a backend config, has been added and the original is still
  in place. Otherwise the backend config of the new call carries the chosen algorithm id
  and tensor-op flag, and the rewriter hands the original to \<open>ReplaceInstruction\<close>
  together with the tuple of element 0 of the new call and an empty \<open>u8\<close> vector, whose
  shape is (convolution result, \<open>u8[0]\<close>): this is the shape of the original exactly
  when the original is of that form, as line 437 takes it to be. An error of
  \<open>ReplaceInstruction\<close> is returned as it is; when it succeeds \<open>RunOnInstruction\<close>
  returns \<open>changed = true\<close> with the computation \<open>ReplaceInstruction\<close> returned.
\<close>

theorem rewriter_replaces_instruction:
  fixes p :: "('m, 't::linorder) Picker"
  assumes instr: "at_index computation (int instr_id) = Some instr"
      "IsCustomCallToDnnConvolution instr"
    and ops: "at_index (operands instr) 0 = Some operand0"
      "at_index (operands instr) 1 = Some operand1"
      "tuple_shapes (shape instr) 0 = Some conv_result_shape"
      "at_index computation (int operand0) = Some lhs"
      "at_index computation (int operand1) = Some rhs"
    and pick: "PickBestAlgorithm_for_target p instr (shape lhs) (shape rhs) conv_result_shape =
           (tr, Done (Inr (alg_id, tensor_ops, scratch_bytes)))"
  shows "\<exists>new_call gte empty new_tuple.
      RunOnInstruction p computation instr_id =
        (tr, Done (case set_backend_config_status p of
                     Some st \<Rightarrow> (Inl st, computation @ [new_call\<lparr>backend_config := None\<rparr>])
                   | None \<Rightarrow>
                       (case ReplaceInstruction p (computation @ [new_call, gte, empty, new_tuple])
                               instr_id (length computation + 3) of
                          Inl st \<Rightarrow> (Inl st, computation @ [new_call, gte, empty, new_tuple])
                        | Inr c8 \<Rightarrow> (Inr True, c8)))) \<and>
      opcode new_call = kCustomCall \<and>
      custom_call_target new_call = custom_call_target instr \<and>
      operands new_call = [operand0, operand1] \<and>
      backend_config new_call =
        Some \<lparr>config_algorithm = alg_id, config_tensor_ops_enabled = tensor_ops\<rparr> \<and>
      shape new_call = TupleShape [conv_result_shape, ArrayShape U8 [scratch_bytes]] \<and>
      window new_call = window instr \<and>
      convolution_dimension_numbers new_call = convolution_dimension_numbers instr \<and>
      opcode gte = kGetTupleElement \<and> operands gte = [length computation] \<and>
      tuple_index gte = 0 \<and> shape gte = conv_result_shape \<and>
      opcode new_tuple = kTuple \<and>
      operands new_tuple = [length computation + 1, length computation + 2] \<and>
      shape new_tuple = TupleShape [conv_result_shape, ArrayShape U8 [0]] \<and>
      (shape new_tuple = shape instr \<longleftrightarrow>
         shape instr = TupleShape [conv_result_shape, ArrayShape U8 [0]])"
proof -
  let ?flag = "xla_gpu_crash_on_verification_failures instr"
  let ?new_call = "(CreateCustomCall
                  (MakeTupleShape [conv_result_shape, MakeShape U8 [scratch_bytes]])
                  [operand0, operand1] (custom_call_target instr) ?flag)
                \<lparr>window := window instr,
                 convolution_dimension_numbers := convolution_dimension_numbers instr,
                 backend_config := Some \<lparr>config_algorithm = alg_id,
                                         config_tensor_ops_enabled = tensor_ops\<rparr>\<rparr>"
  let ?gte = "CreateGetTupleElement conv_result_shape (length computation) 0 ?flag"
  let ?empty = "CreateConstant_empty_u8 ?flag"
  let ?new_tuple = "new_instruction kTuple
                 (MakeTupleShape [conv_result_shape, MakeShape U8 [0]])
                 [length computation + 1, length computation + 2] ?flag"
  have run: "RunOnInstruction p computation instr_id =
      (tr, Done (replace_with_pick p computation instr_id instr conv_result_shape
                   operand0 operand1 (alg_id, tensor_ops, scratch_bytes)))"
    using instr ops pick by (simp add: RunOnInstruction_def)
  have "RunOnInstruction p computation instr_id =
        (tr, Done (case set_backend_config_status p of
                     Some st \<Rightarrow> (Inl st, computation @ [?new_call\<lparr>backend_config := None\<rparr>])
                   | None \<Rightarrow>
                       (case ReplaceInstruction p
                               (computation @ [?new_call, ?gte, ?empty, ?new_tuple])
                               instr_id (length computation + 3) of
                          Inl st \<Rightarrow> (Inl st, computation @ [?new_call, ?gte, ?empty, ?new_tuple])
                        | Inr c8 \<Rightarrow> (Inr True, c8))))"
  proof (cases "set_backend_config_status p")
    case None
    show ?thesis
      unfolding run replace_with_pick_unfold [OF None]
      by (simp add: None Let_def numeral_3_eq_3 numeral_2_eq_2 cong: sum.case_cong)
  next
    case (Some st)
    show ?thesis
      unfolding run replace_with_pick_config_error [OF Some]
      by (simp add: Some CreateCustomCall_def new_instruction_def)
  qed
  moreover have "shape ?new_tuple = shape instr \<longleftrightarrow>
      shape instr = TupleShape [conv_result_shape, ArrayShape U8 [0]]"
    by (auto simp: new_instruction_def MakeTupleShape_def MakeShape_def)
  ultimately show ?thesis
    by (intro exI [of _ ?new_call] exI [of _ ?gte] exI [of _ ?empty] exI [of _ ?new_tuple])
       (simp add: CreateCustomCall_def CreateGetTupleElement_def new_instruction_def
          MakeTupleShape_def MakeShape_def)
qed

theorem rewriter_replaces_instruction_witness:
  "(\<exists>new_call gte empty new_tuple.
      RunOnInstruction (example_picker example_v6 example_run None)
          (example_computation F16 False) 2 =
        (example_init_f16 @
           [RunConvolution (example_alg 0), ComparatorCreate example_output_buf,
            RunConvolution (example_alg 1),
            ComparatorCompareEqual (F16BufferComparator example_output_buf) example_output_buf,
            RunConvolution (example_alg 5)],
         Done (case ReplaceInstruction (example_picker example_v6 example_run None)
                      (example_computation F16 False @ [new_call, gte, empty, new_tuple])
                      2 (length (example_computation F16 False) + 3) of
                 Inl st \<Rightarrow>
                   (Inl st, example_computation F16 False @ [new_call, gte, empty, new_tuple])
               | Inr c8 \<Rightarrow> (Inr True, c8))) \<and>
      opcode new_call = kCustomCall \<and>
      custom_call_target new_call = custom_call_target (example_conv F16 False) \<and>
      operands new_call = [0, 1] \<and>
      backend_config new_call =
        Some \<lparr>config_algorithm = 1, config_tensor_ops_enabled = False\<rparr> \<and>
      shape new_call = TupleShape [example_output_shape, ArrayShape U8 [0]] \<and>
      window new_call = window (example_conv F16 False) \<and>
      convolution_dimension_numbers new_call =
        convolution_dimension_numbers (example_conv F16 False) \<and>
      opcode gte = kGetTupleElement \<and>
      operands gte = [length (example_computation F16 False)] \<and>
      tuple_index gte = 0 \<and> shape gte = example_output_shape \<and>
      opcode new_tuple = kTuple \<and>
      operands new_tuple = [length (example_computation F16 False) + 1,
                            length (example_computation F16 False) + 2] \<and>
      shape new_tuple = TupleShape [example_output_shape, ArrayShape U8 [0]] \<and>
      shape new_tuple = shape (example_conv F16 False)) \<and>
   (\<exists>new_call.
      RunOnInstruction example_picker_config_fails (example_computation F16 False) 2 =
        (example_init_f16 @
           [RunConvolution (example_alg 0), ComparatorCreate example_output_buf,
            RunConvolution (example_alg 1),
            ComparatorCompareEqual (F16BufferComparator example_output_buf) example_output_buf,
            RunConvolution (example_alg 5)],
         Done (Inl (Status INTERNAL (Text ''cannot serialize'')),
               example_computation F16 False @ [new_call\<lparr>backend_config := None\<rparr>])) \<and>
      opcode new_call = kCustomCall \<and>
      custom_call_target new_call = custom_call_target (example_conv F16 False) \<and>
      operands new_call = [0, 1] \<and>
      shape new_call = TupleShape [example_output_shape, ArrayShape U8 [0]] \<and>
      window new_call = window (example_conv F16 False) \<and>
      convolution_dimension_numbers new_call =
        convolution_dimension_numbers (example_conv F16 False)) \<and>
   (\<exists>new_call gte empty new_tuple.
      RunOnInstruction example_picker_replace_checks example_computation_scratch 2 =
        (example_init_f16 @
           [RunConvolution (example_alg 0), ComparatorCreate example_output_buf,
            RunConvolution (example_alg 1),
            ComparatorCompareEqual (F16BufferComparator example_output_buf) example_output_buf,
            RunConvolution (example_alg 5)],
         Done (Inl (Status INTERNAL (Text ''shapes differ'')),
               example_computation_scratch @ [new_call, gte, empty, new_tuple])) \<and>
      shape new_call = TupleShape [example_output_shape, ArrayShape U8 [0]] \<and>
      shape new_tuple = TupleShape [example_output_shape, ArrayShape U8 [0]] \<and>
      shape example_conv_scratch = TupleShape [example_output_shape, ArrayShape U8 [7]] \<and>
      shape new_tuple \<noteq> shape example_conv_scratch)"
proof -
  let ?p = "example_picker example_v6 example_run None"
  let ?q = "example_picker_config_fails"
  let ?r = "example_picker_replace_checks"
  let ?c = "example_computation F16 False"
  let ?cs = "example_computation_scratch"
  let ?i = "example_conv F16 False"
  let ?is = "example_conv_scratch"
  let ?tr = "example_init_f16 @
           [RunConvolution (example_alg 0), ComparatorCreate example_output_buf,
            RunConvolution (example_alg 1),
            ComparatorCompareEqual (F16BufferComparator example_output_buf) example_output_buf,
            RunConvolution (example_alg 5)]"
  have instr: "at_index ?c (int 2) = Some ?i" "IsCustomCallToDnnConvolution ?i"
    by code_simp+
  have ops: "at_index (operands ?i) 0 = Some 0" "at_index (operands ?i) 1 = Some 1"
    "tuple_shapes (shape ?i) 0 = Some example_output_shape"
    "at_index ?c (int 0) = Some (?c ! 0)" "at_index ?c (int 1) = Some (?c ! 1)"
    by code_simp+
  have instr_s: "at_index ?cs (int 2) = Some ?is" "IsCustomCallToDnnConvolution ?is"
    by code_simp+
  have ops_s: "at_index (operands ?is) 0 = Some 0" "at_index (operands ?is) 1 = Some 1"
    "tuple_shapes (shape ?is) 0 = Some example_output_shape"
    "at_index ?cs (int 0) = Some (?cs ! 0)" "at_index ?cs (int 1) = Some (?cs ! 1)"
    by code_simp+
  have pick: "PickBestAlgorithm_for_target ?p ?i (shape (?c ! 0)) (shape (?c ! 1))
      example_output_shape = (?tr, Done (Inr (1, False, 0)))"
    by code_simp
  have pick_q: "PickBestAlgorithm_for_target ?q ?i (shape (?c ! 0)) (shape (?c ! 1))
      example_output_shape = (?tr, Done (Inr (1, False, 0)))"
    by code_simp
  have pick_r: "PickBestAlgorithm_for_target ?r ?is (shape (?cs ! 0)) (shape (?cs ! 1))
      example_output_shape = (?tr, Done (Inr (1, False, 0)))"
    by code_simp
  have config: "set_backend_config_status ?p = None"
    "set_backend_config_status ?q = Some (Status INTERNAL (Text ''cannot serialize''))"
    "set_backend_config_status ?r = None"
    by code_simp+
  have same: "shape ?i = TupleShape [example_output_shape, ArrayShape U8 [0]]" by code_simp
  have scratch: "shape ?is = TupleShape [example_output_shape, ArrayShape U8 [7]]" by code_simp
  have orig: "\<And>xs. (?cs @ xs) ! 2 = ?is" "length ?cs = 3"
    by (simp_all add: example_computation_scratch_def)
  have repl: "\<And>c new. ReplaceInstruction ?r c 2 new =
      (if shape (c ! 2) = shape (c ! new) then Inr (c[2 := c ! new])
       else Inl (Status INTERNAL (Text ''shapes differ'')))"
    by (simp add: example_picker_replace_checks_def)
  note replaced = rewriter_replaces_instruction [OF instr ops pick, unfolded config option.case same]
  note refused = rewriter_replaces_instruction [OF instr ops pick_q, unfolded config option.case]
  note differs = rewriter_replaces_instruction [OF instr_s ops_s pick_r, unfolded config option.case]
  have first: "\<exists>new_call gte empty new_tuple.
      RunOnInstruction ?p ?c 2 =
        (?tr,
         Done (case ReplaceInstruction ?p (?c @ [new_call, gte, empty, new_tuple])
                      2 (length ?c + 3) of
                 Inl st \<Rightarrow> (Inl st, ?c @ [new_call, gte, empty, new_tuple])
               | Inr c8 \<Rightarrow> (Inr True, c8))) \<and>
      opcode new_call = kCustomCall \<and>
      custom_call_target new_call = custom_call_target ?i \<and>
      operands new_call = [0, 1] \<and>
      backend_config new_call =
        Some \<lparr>config_algorithm = 1, config_tensor_ops_enabled = False\<rparr> \<and>
      shape new_call = TupleShape [example_output_shape, ArrayShape U8 [0]] \<and>
      window new_call = window ?i \<and>
      convolution_dimension_numbers new_call = convolution_dimension_numbers ?i \<and>
      opcode gte = kGetTupleElement \<and>
      operands gte = [length ?c] \<and>
      tuple_index gte = 0 \<and> shape gte = example_output_shape \<and>
      opcode new_tuple = kTuple \<and>
      operands new_tuple = [length ?c + 1, length ?c + 2] \<and>
      shape new_tuple = TupleShape [example_output_shape, ArrayShape U8 [0]] \<and>
      shape new_tuple = shape ?i"
    using replaced unfolding same by simp
  have second: "\<exists>new_call.
      RunOnInstruction ?q ?c 2 =
        (?tr, Done (Inl (Status INTERNAL (Text ''cannot serialize'')),
               ?c @ [new_call\<lparr>backend_config := None\<rparr>])) \<and>
      opcode new_call = kCustomCall \<and>
      custom_call_target new_call = custom_call_target ?i \<and>
      operands new_call = [0, 1] \<and>
      shape new_call = TupleShape [example_output_shape, ArrayShape U8 [0]] \<and>
      window new_call = window ?i \<and>
      convolution_dimension_numbers new_call = convolution_dimension_numbers ?i"
    using refused by blast
  from differs obtain nc g e nt where
    run: "RunOnInstruction ?r ?cs 2 =
        (?tr, Done (case ReplaceInstruction ?r (?cs @ [nc, g, e, nt]) 2 (length ?cs + 3) of
                 Inl st \<Rightarrow> (Inl st, ?cs @ [nc, g, e, nt])
               | Inr c8 \<Rightarrow> (Inr True, c8)))"
    and shapes: "shape nc = TupleShape [example_output_shape, ArrayShape U8 [0]]"
      "shape nt = TupleShape [example_output_shape, ArrayShape U8 [0]]"
    by blast
  have "RunOnInstruction ?r ?cs 2 =
        (?tr, Done (Inl (Status INTERNAL (Text ''shapes differ'')), ?cs @ [nc, g, e, nt]))"
    unfolding run repl orig by (simp add: nth_append orig shapes scratch)
  with shapes scratch have third: "\<exists>new_call gte empty new_tuple.
      RunOnInstruction ?r ?cs 2 =
        (?tr, Done (Inl (Status INTERNAL (Text ''shapes differ'')),
               ?cs @ [new_call, gte, empty, new_tuple])) \<and>
      shape new_call = TupleShape [example_output_shape, ArrayShape U8 [0]] \<and>
      shape new_tuple = TupleShape [example_output_shape, ArrayShape U8 [0]] \<and>
      shape ?is = TupleShape [example_output_shape, ArrayShape U8 [7]] \<and>
      shape new_tuple \<noteq> shape ?is"
    by (intro exI [of _ nc] exI [of _ g] exI [of _ e] exI [of _ nt]) simp
  from first second third show ?thesis by blast
qed

text \<open>
  C7 as stated fails twice. Where \<open>set_backend_config\<close> returns an error, the pick
  succeeded, the new call has been added, and \<open>RunOnInstruction\<close> returns that error, not
  \<open>changed = true\<close>; the original instruction is still in place. And where the original
  has the shape (convolution result, \<open>u8[7]\<close>), the tuple that replaces it has the shape
  (convolution result, \<open>u8[0]\<close>): with a \<open>ReplaceInstruction\<close> that accepts it,
  \<open>RunOnInstruction\<close> returns \<open>changed = true\<close> and the shape at the original's place
  has changed; with one that refuses a replacement of another shape, \<open>RunOnInstruction\<close>
  returns the error.
\<close>

theorem rewriter_returns_error_after_successful_pick:
  "snd (PickBestAlgorithm example_picker_config_fails kForward example_input_shape
          example_filter_shape example_output_shape (window (example_conv F16 False))
          example_dnums (example_conv F16 False)) = Done (Inr (1, False, 0)) \<and>
   snd (RunOnInstruction example_picker_config_fails (example_computation F16 False) 2) =
     Done (Inl (Status INTERNAL (Text ''cannot serialize'')),
           example_computation F16 False @
             [(CreateCustomCall (TupleShape [example_output_shape, ArrayShape U8 [0]]) [0, 1]
                 kCudnnConvForwardCallTarget False)
                \<lparr>window := window (example_conv F16 False),
                 convolution_dimension_numbers := example_dnums\<rparr>]) \<and>
   shape (example_computation_scratch ! 2) =
     TupleShape [ArrayShape F16 [1, 4, 6, 6], ArrayShape U8 [7]] \<and>
   snd (RunOnInstruction (example_picker example_v6 example_run None)
          example_computation_scratch 2) =
     Done (Inr True,
           (example_computation_scratch @
              [(CreateCustomCall (TupleShape [example_output_shape, ArrayShape U8 [0]]) [0, 1]
                  kCudnnConvForwardCallTarget False)
                 \<lparr>window := window (example_conv F16 False),
                  convolution_dimension_numbers := example_dnums,
                  backend_config :=
                    Some \<lparr>config_algorithm = 1, config_tensor_ops_enabled = False\<rparr>\<rparr>,
               CreateGetTupleElement example_output_shape 3 0 False,
               CreateConstant_empty_u8 False,
               new_instruction kTuple (TupleShape [example_output_shape, ArrayShape U8 [0]])
                 [4, 5] False])
           [2 := new_instruction kTuple (TupleShape [example_output_shape, ArrayShape U8 [0]])
                   [4, 5] False]) \<and>
   shape (new_instruction kTuple (TupleShape [example_output_shape, ArrayShape U8 [0]])
            [4, 5] False) =
     TupleShape [ArrayShape F16 [1, 4, 6, 6], ArrayShape U8 [0]] \<and>
   snd (RunOnInstruction example_picker_replace_checks example_computation_scratch 2) =
     Done (Inl (Status INTERNAL (Text ''shapes differ'')),
           example_computation_scratch @
              [(CreateCustomCall (TupleShape [example_output_shape, ArrayShape U8 [0]]) [0, 1]
                  kCudnnConvForwardCallTarget False)
                 \<lparr>window := window (example_conv F16 False),
                  convolution_dimension_numbers := example_dnums,
                  backend_config :=
                    Some \<lparr>config_algorithm = 1, config_tensor_ops_enabled = False\<rparr>\<rparr>,
               CreateGetTupleElement example_output_shape 3 0 False,
               CreateConstant_empty_u8 False,
               new_instruction kTuple (TupleShape [example_output_shape, ArrayShape U8 [0]])
                 [4, 5] False])"
  by code_simp

end
